theory Spec2Isabelle
  imports Main "HOL-Library.Sublist" "HOL-Library.AList" "HOL-Library.Char_ord"
    "HOL-Library.List_Lexorder"
begin

section \<open>Python values\<close>

text \<open>
  The program is dynamically typed Python working on decoded JSON. A value is
  \<^verbatim>\<open>None\<close>, a boolean, a number, a string, a list or a dictionary with string keys
  (kept as an association list in insertion order). Numbers are modelled by
  integers: the code only tests numbers for truthiness, type and equality, where
  a float behaves as an integer does.
\<close>

datatype json =
    JNull
  | JBool bool
  | JNum int
  | JStr string
  | JList "json list"
  | JDict "(string \<times> json) list"

text \<open>An exception that leaves a function is a value \<open>Inl e\<close> of the result.\<close>

datatype py_error =
    AttributeError
  | IndexError
  | KeyError
  | TypeError
  | ConnectionError
  | HTTPError
  | JSONDecodeError
  | OSError

type_synonym 'a result = "py_error + 'a"

definition bind_result :: "'a result \<Rightarrow> ('a \<Rightarrow> 'b result) \<Rightarrow> 'b result" where
  "bind_result m f = (case m of Inl e \<Rightarrow> Inl e | Inr x \<Rightarrow> f x)"

text \<open>Python truthiness: what \<^verbatim>\<open>if x\<close>, \<^verbatim>\<open>not x\<close> and \<^verbatim>\<open>x or y\<close> test.\<close>

fun truthy :: "json \<Rightarrow> bool" where
  "truthy JNull = False"
| "truthy (JBool b) = b"
| "truthy (JNum n) = (n \<noteq> 0)"
| "truthy (JStr s) = (s \<noteq> [])"
| "truthy (JList xs) = (xs \<noteq> [])"
| "truthy (JDict kvs) = (kvs \<noteq> [])"

definition py_or :: "json \<Rightarrow> json \<Rightarrow> json" where
  "py_or a b = (if truthy a then a else b)"

text \<open>\<^verbatim>\<open>sub in s\<close> on strings: \<open>sub\<close> occurs in \<open>s\<close> as a contiguous block.\<close>

fun contains :: "string \<Rightarrow> string \<Rightarrow> bool" where
  "contains [] sub = (sub = [])"
| "contains (c # cs) sub = (prefix sub (c # cs) \<or> contains cs sub)"

text \<open>
  \<^verbatim>\<open>str.lower()\<close>, on the letters A to Z. The patterns the program looks for after
  lowering are ASCII digits, \<^verbatim>\<open>/\<close> and the words \<^verbatim>\<open>not applicable\<close>.
\<close>

definition lower_char :: "char \<Rightarrow> char" where
  "lower_char c =
     (let n = (of_char c :: nat) in if 65 \<le> n \<and> n \<le> 90 then char_of (n + 32) else c)"

definition lower :: "string \<Rightarrow> string" where
  "lower s = map lower_char s"

text \<open>
  \<^verbatim>\<open>str.strip()\<close> drops the white space at both ends: of the ASCII characters,
  9 to 13 and 28 to 32.
\<close>

definition is_space :: "char \<Rightarrow> bool" where
  "is_space c = (let n = (of_char c :: nat) in (9 \<le> n \<and> n \<le> 13) \<or> (28 \<le> n \<and> n \<le> 32))"

definition strip :: "string \<Rightarrow> string" where
  "strip s = rev (dropWhile is_space (rev (dropWhile is_space s)))"

text \<open>
  \<^verbatim>\<open>xs[:n]\<close>: the first \<open>n\<close> elements, and for a negative \<open>n\<close> all but the last
  \<open>-n\<close>.
\<close>

definition py_slice_to :: "'a list \<Rightarrow> int \<Rightarrow> 'a list" where
  "py_slice_to xs n =
     (if 0 \<le> n then take (nat n) xs else take (nat (int (length xs) + n)) xs)"

text \<open>
  Dictionaries. \<^verbatim>\<open>d.get(k)\<close> gives \<^verbatim>\<open>None\<close> for a missing key, \<^verbatim>\<open>d.get(k, v)\<close>
  gives \<open>v\<close>, and \<^verbatim>\<open>d[k] = v\<close> replaces the value of a key in place or adds the key
  at the end. Only a dictionary has the method \<^verbatim>\<open>get\<close>: on any other value the
  call raises \<^verbatim>\<open>AttributeError\<close>.
\<close>

definition dict_get :: "(string \<times> json) list \<Rightarrow> string \<Rightarrow> json" where
  "dict_get d k = (case map_of d k of None \<Rightarrow> JNull | Some v \<Rightarrow> v)"

definition dict_get_default :: "(string \<times> json) list \<Rightarrow> string \<Rightarrow> json \<Rightarrow> json" where
  "dict_get_default d k v0 = (case map_of d k of None \<Rightarrow> v0 | Some v \<Rightarrow> v)"

definition dict_set :: "(string \<times> json) list \<Rightarrow> string \<Rightarrow> json \<Rightarrow> (string \<times> json) list" where
  "dict_set d k v = AList.update k v d"

definition py_get :: "json \<Rightarrow> string \<Rightarrow> json result" where
  "py_get x k = (case x of JDict d \<Rightarrow> Inr (dict_get d k) | _ \<Rightarrow> Inl AttributeError)"

definition py_get_default :: "json \<Rightarrow> string \<Rightarrow> json \<Rightarrow> json result" where
  "py_get_default x k v0 =
     (case x of JDict d \<Rightarrow> Inr (dict_get_default d k v0) | _ \<Rightarrow> Inl AttributeError)"

text \<open>
  \<^verbatim>\<open>x[0]\<close>: the first element of a list, the first character of a string (a
  string of length one); \<^verbatim>\<open>IndexError\<close> when they are empty. A dictionary decoded
  from JSON has string keys only, so \<^verbatim>\<open>d[0]\<close> is a \<^verbatim>\<open>KeyError\<close>; the other values
  cannot be subscripted.
\<close>

definition py_index0 :: "json \<Rightarrow> json result" where
  "py_index0 x =
     (case x of
        JList xs \<Rightarrow> (case xs of [] \<Rightarrow> Inl IndexError | v # _ \<Rightarrow> Inr v)
      | JStr s \<Rightarrow> (case s of [] \<Rightarrow> Inl IndexError | c # _ \<Rightarrow> Inr (JStr [c]))
      | JDict _ \<Rightarrow> Inl KeyError
      | _ \<Rightarrow> Inl TypeError)"

text \<open>
  The values a \<^verbatim>\<open>for\<close> loop over \<open>x\<close> walks through: the elements of a list, the
  characters of a string, the keys of a dictionary. Other values are not iterable.
\<close>

definition py_iter :: "json \<Rightarrow> json list result" where
  "py_iter x =
     (case x of
        JList xs \<Rightarrow> Inr xs
      | JStr s \<Rightarrow> Inr (map (\<lambda>c. JStr [c]) s)
      | JDict d \<Rightarrow> Inr (map (\<lambda>kv. JStr (fst kv)) d)
      | _ \<Rightarrow> Inl TypeError)"

text \<open>
  The values of \<^verbatim>\<open>for item in x[:n]\<close>: lists and strings can be sliced, a
  dictionary and the scalars cannot.
\<close>

definition py_slice_iter :: "json \<Rightarrow> int \<Rightarrow> json list result" where
  "py_slice_iter x n =
     (case x of
        JList xs \<Rightarrow> Inr (py_slice_to xs n)
      | JStr s \<Rightarrow> Inr (map (\<lambda>c. JStr [c]) (py_slice_to s n))
      | _ \<Rightarrow> Inl TypeError)"

text \<open>A loop body that may raise, run over a list: the first exception ends the loop.\<close>

fun map_result :: "('a \<Rightarrow> 'b result) \<Rightarrow> 'a list \<Rightarrow> 'b list result" where
  "map_result f [] = Inr []"
| "map_result f (x # xs) =
     (case f x of
        Inl e \<Rightarrow> Inl e
      | Inr y \<Rightarrow> (case map_result f xs of Inl e \<Rightarrow> Inl e | Inr ys \<Rightarrow> Inr (y # ys)))"

definition opt_json :: "string option \<Rightarrow> json" where
  "opt_json v = (case v of None \<Rightarrow> JNull | Some s \<Rightarrow> JStr s)"

section \<open>The world outside the program\<close>

text \<open>
  The network answers each \<^verbatim>\<open>requests.get\<close> with the next response of a script:
  the connection fails, or the server answers with an error status (on which
  \<^verbatim>\<open>raise_for_status\<close> raises), or it answers with a body, of which \<^verbatim>\<open>r.text\<close> is
  the text and \<^verbatim>\<open>r.json()\<close> the decoded value (\<open>None\<close> when decoding raises). When
  the script is used up the connection fails.
\<close>

datatype response =
    ConnectionFailed
  | HttpStatusError
  | Responded string "json option"

text \<open>
  A cache file holds text that \<^verbatim>\<open>json.loads\<close> decodes to a value, or text on
  which reading or decoding raises. \<^verbatim>\<open>json.dumps\<close> followed by \<^verbatim>\<open>json.loads\<close> gives
  the value back.
\<close>

datatype cache_file = Unreadable | Decoded json

text \<open>The calls the properties speak about are logged, in order, in \<open>trace\<close>.\<close>

datatype event =
    CallSerpapi int
  | CallBing int
  | CallGdelt int
  | CallFetchUrl json

text \<open>
  The state the program reads and writes: the archive directory (file name to
  text), the news cache directory (file name to modification time and content),
  whether a cache file can be written, the responses the network still has to
  give, the UTC clock in microseconds, and the log of calls. Sleeping and printed
  warnings are not part of the state.
\<close>

record world =
  archive :: "string \<rightharpoonup> string"
  news_cache :: "string \<rightharpoonup> (int \<times> cache_file)"
  cache_writable :: bool
  pending :: "response list"
  clock :: int
  trace :: "event list"

text \<open>
  What the program is configured with and the library functions it calls: the
  two API keys of the environment, the first 16 hexadecimal digits of SHA-256,
  the HTML parser, the two date parsers (\<open>None\<close> when they raise),
  \<^verbatim>\<open>datetime.isoformat\<close> and the built-in \<^verbatim>\<open>str\<close>.
\<close>

record soup =
  title_string :: "string option"
  h1_string :: "string option"
  meta_description :: "string option"
  og_description :: "string option"

record env =
  SERPAPI_KEY :: "string option"
  BING_KEY :: "string option"
  sha256_hex16 :: "string \<Rightarrow> string"
  parse_html :: "string \<Rightarrow> soup option"
  parse_date :: "string \<Rightarrow> string option"
  strptime_gdelt :: "string \<Rightarrow> string option"
  isoformat :: "int \<Rightarrow> string"
  py_str :: "json \<Rightarrow> string"

definition requests_get :: "world \<Rightarrow> response \<times> world" where
  "requests_get w =
     (case pending w of
        [] \<Rightarrow> (ConnectionFailed, w)
      | r # rs \<Rightarrow> (r, w\<lparr>pending := rs\<rparr>))"

text \<open>The response the next request gets.\<close>

definition next_response :: "world \<Rightarrow> response" where
  "next_response w = (case pending w of [] \<Rightarrow> ConnectionFailed | r # _ \<Rightarrow> r)"

definition log_call :: "event \<Rightarrow> world \<Rightarrow> world" where
  "log_call ev w = w\<lparr>trace := trace w @ [ev]\<rparr>"

section \<open>fetcher.py\<close>

text \<open>
  The dictionary \<^verbatim>\<open>fetch_url\<close> returns has fixed keys; a key that is absent and a
  key bound to \<^verbatim>\<open>None\<close> are both \<open>None\<close> here.
\<close>

record fetch_result =
  raw_text :: "string option"
  archive_path :: "string option"
  fetched_at :: string
  from_cache :: bool
  error :: "string option"

definition archive_file :: "env \<Rightarrow> string \<Rightarrow> string" where
  "archive_file e url = sha256_hex16 e url @ ''.html''"

text \<open>
  The retry loop \<^verbatim>\<open>for attempt in range(max_retries)\<close>, with \<open>n\<close> attempts left. A
  response with a body is written to the archive and returned; a failed request
  or an error status is caught and the next attempt follows.
\<close>

fun fetch_attempts :: "env \<Rightarrow> nat \<Rightarrow> string \<Rightarrow> int \<Rightarrow> world \<Rightarrow> fetch_result \<times> world" where
  "fetch_attempts e 0 url max_retries w =
     (\<lparr>raw_text = None, archive_path = None, fetched_at = isoformat e (clock w),
       from_cache = False,
       error = Some (''Failed after '' @ py_str e (JNum max_retries) @ '' attempts'')\<rparr>, w)"
| "fetch_attempts e (Suc n) url max_retries w =
     (case requests_get w of
        (Responded body _, w') \<Rightarrow>
          (\<lparr>raw_text = Some body, archive_path = Some (''archive/'' @ archive_file e url),
            fetched_at = isoformat e (clock w'), from_cache = False, error = None\<rparr>,
           w'\<lparr>archive := (archive w')(archive_file e url \<mapsto> body)\<rparr>)
      | (_, w') \<Rightarrow> fetch_attempts e n url max_retries w')"

text \<open>
  \<^verbatim>\<open>Path.read_text\<close> opens the file in text mode: every CR LF and every single
  CR of the file is read as LF. (On the POSIX systems modelled here
  \<^verbatim>\<open>write_text\<close> stores the text as it is.)
\<close>

fun universal_newlines :: "string \<Rightarrow> string" where
  "universal_newlines [] = []"
| "universal_newlines [c] = (if c = CHR 0x0D then [CHR 0x0A] else [c])"
| "universal_newlines (c # d # cs) =
     (if c = CHR 0x0D \<and> d = CHR 0x0A then CHR 0x0A # universal_newlines cs
      else if c = CHR 0x0D then CHR 0x0A # universal_newlines (d # cs)
      else c # universal_newlines (d # cs))"

text \<open>
  \<^verbatim>\<open>fetch_url(url, use_cache, max_retries)\<close>. \<^verbatim>\<open>url.encode()\<close> needs a string. With
  \<open>use_cache\<close> and an archived file for the digest of the URL, the file is read
  and returned and nothing else happens.
\<close>

definition fetch_url :: "env \<Rightarrow> world \<Rightarrow> json \<Rightarrow> bool \<Rightarrow> int \<Rightarrow> fetch_result result \<times> world" where
  "fetch_url e w0 url use_cache max_retries =
     (let w = log_call (CallFetchUrl url) w0 in
      case url of
        JStr u \<Rightarrow>
          (case (if use_cache then archive w (archive_file e u) else None) of
             Some body \<Rightarrow>
               (Inr \<lparr>raw_text = Some (universal_newlines body),
                     archive_path = Some (''archive/'' @ archive_file e u),
                     fetched_at = isoformat e (clock w), from_cache = True, error = None\<rparr>, w)
           | None \<Rightarrow>
               (let (res, w') = fetch_attempts e (nat max_retries) u max_retries w
                in (Inr res, w')))
      | _ \<Rightarrow> (Inl AttributeError, w))"

section \<open>extractor.py\<close>

text \<open>
  The dictionary \<^verbatim>\<open>extract_basic_metadata\<close> returns: the keys \<^verbatim>\<open>title\<close>,
  \<^verbatim>\<open>description\<close>, \<^verbatim>\<open>source_url\<close>, \<^verbatim>\<open>fetched_at\<close>, \<^verbatim>\<open>extraction_confidence\<close> (in
  hundredths: 0.6, 0.2 and 0.0 in the source) and \<^verbatim>\<open>evidence_snippet\<close>, and whether
  it is the result of the \<^verbatim>\<open>except\<close> branch, which has the key \<^verbatim>\<open>error\<close> and no
  snippet.
\<close>

record metadata =
  meta_title :: "string option"
  meta_description_text :: "string option"
  meta_source_url :: json
  meta_fetched_at :: string
  meta_confidence :: nat
  meta_evidence_snippet :: "string option"
  meta_error :: bool

definition nonempty :: "string option \<Rightarrow> bool" where
  "nonempty v = (case v of None \<Rightarrow> False | Some s \<Rightarrow> s \<noteq> [])"

definition extract_basic_metadata :: "env \<Rightarrow> world \<Rightarrow> string \<Rightarrow> json \<Rightarrow> metadata" where
  "extract_basic_metadata e w html_text source_url =
     (case parse_html e html_text of
        None \<Rightarrow>
          \<lparr>meta_title = None, meta_description_text = None, meta_source_url = source_url,
           meta_fetched_at = isoformat e (clock w), meta_confidence = 0,
           meta_evidence_snippet = None, meta_error = True\<rparr>
      | Some sp \<Rightarrow>
          (let t = (if nonempty (title_string sp) then map_option strip (title_string sp)
                    else if nonempty (h1_string sp) then map_option strip (h1_string sp)
                    else None);
               d = (case meta_description sp of
                      Some c \<Rightarrow> Some (strip c)
                    | None \<Rightarrow> map_option strip (og_description sp));
               snippet = (if nonempty d then map_option (take 200) d
                          else if nonempty t then map_option (take 200) t else None)
           in \<lparr>meta_title = t, meta_description_text = d, meta_source_url = source_url,
                meta_fetched_at = isoformat e (clock w),
                meta_confidence = (if nonempty t \<or> nonempty d then 60 else 20),
                meta_evidence_snippet = snippet, meta_error = False\<rparr>))"

section \<open>news_sources.py\<close>

subsection \<open>The result cache\<close>

text \<open>
  \<^verbatim>\<open>_sanitize_filename\<close>: every character that is not a letter, a digit, a space,
  a dot or an underscore becomes an underscore; the ends are stripped, spaces
  become underscores, and 180 characters are kept. Names are ASCII text here, so
  the letters and digits are those of ASCII.
\<close>

definition isalnum :: "char \<Rightarrow> bool" where
  "isalnum c =
     (let n = (of_char c :: nat)
      in (48 \<le> n \<and> n \<le> 57) \<or> (65 \<le> n \<and> n \<le> 90) \<or> (97 \<le> n \<and> n \<le> 122))"

definition sanitize_filename :: "string \<Rightarrow> string" where
  "sanitize_filename name =
     (let s = strip (map (\<lambda>c. if isalnum c \<or> c \<in> set '' ._'' then c else CHR ''_'') name)
      in take 180 (map (\<lambda>c. if c = CHR '' '' then CHR ''_'' else c) s))"

definition cache_file_name :: "string \<Rightarrow> string" where
  "cache_file_name company_name = sanitize_filename company_name @ ''.json''"

text \<open>
  \<^verbatim>\<open>_load_cache(company_name, ttl_hours)\<close>: \<^verbatim>\<open>None\<close> when the file is missing, when
  it is older than the time to live, and when reading or decoding it raises
  (the \<^verbatim>\<open>try\<close> around \<^verbatim>\<open>json.loads\<close>); the decoded value otherwise.
\<close>

definition ttl_microseconds :: "int \<Rightarrow> int" where
  "ttl_microseconds ttl_hours = ttl_hours * 3600000000"

definition load_cache :: "world \<Rightarrow> string \<Rightarrow> int \<Rightarrow> json" where
  "load_cache w company_name ttl_hours =
     (case news_cache w (cache_file_name company_name) of
        None \<Rightarrow> JNull
      | Some (mtime, content) \<Rightarrow>
          if clock w - mtime > ttl_microseconds ttl_hours then JNull
          else (case content of Unreadable \<Rightarrow> JNull | Decoded v \<Rightarrow> v))"

text \<open>
  \<^verbatim>\<open>_save_cache(company_name, payload)\<close> is one \<^verbatim>\<open>write_text\<close> with no handler
  around it: when the file cannot be written the \<^verbatim>\<open>OSError\<close> leaves the function.
\<close>

definition save_cache :: "world \<Rightarrow> string \<Rightarrow> json \<Rightarrow> unit result \<times> world" where
  "save_cache w company_name payload =
     (if cache_writable w
      then (Inr (),
            w\<lparr>news_cache :=
                 (news_cache w)(cache_file_name company_name \<mapsto> (clock w, Decoded payload))\<rparr>)
      else (Inl OSError, w))"

subsection \<open>The three news adapters\<close>

text \<open>
  What \<^verbatim>\<open>r = requests.get(...); r.raise_for_status(); data = r.json()\<close> gives for
  a response.
\<close>

definition response_json :: "response \<Rightarrow> json result" where
  "response_json r =
     (case r of
        ConnectionFailed \<Rightarrow> Inl ConnectionError
      | HttpStatusError \<Rightarrow> Inl HTTPError
      | Responded _ None \<Rightarrow> Inl JSONDecodeError
      | Responded _ (Some data) \<Rightarrow> Inr data)"

definition key_set :: "string option \<Rightarrow> bool" where
  "key_set k = (case k of None \<Rightarrow> False | Some s \<Rightarrow> s \<noteq> [])"

text \<open>The article \<^verbatim>\<open>fetch_news_serpapi\<close> builds from one item of the response.\<close>

definition serpapi_article :: "json \<Rightarrow> json result" where
  "serpapi_article item =
     (case item of
        JDict d \<Rightarrow>
          Inr (JDict
            [(''title'', py_or (dict_get d ''title'') (dict_get d ''headline'')),
             (''url'', py_or (dict_get d ''link'') (dict_get d ''source'')),
             (''source'',
                (case dict_get d ''source'' of
                   JDict src \<Rightarrow> dict_get src ''name''
                 | v \<Rightarrow> v)),
             (''snippet'',
                py_or (py_or (dict_get d ''snippet'') (dict_get d ''summary''))
                  (dict_get d ''description'')),
             (''published'',
                py_or (py_or (dict_get d ''date'') (dict_get d ''published_date''))
                  (dict_get d ''time'')),
             (''raw'', item)])
      | _ \<Rightarrow> Inl AttributeError)"

text \<open>The body of the \<^verbatim>\<open>try\<close> block of \<^verbatim>\<open>fetch_news_serpapi\<close>, after the request.\<close>

definition serpapi_body :: "response \<Rightarrow> int \<Rightarrow> json list result" where
  "serpapi_body r max_results =
     bind_result (response_json r) (\<lambda>data.
     bind_result (py_get data ''news_results'') (\<lambda>c1.
     bind_result (py_get data ''news'') (\<lambda>c2.
     bind_result (py_get data ''organic_results'') (\<lambda>c3.
     bind_result (py_slice_iter (py_or (py_or (py_or c1 c2) c3) (JList [])) max_results)
       (map_result serpapi_article)))))"

text \<open>
  \<^verbatim>\<open>fetch_news_serpapi(company_name, max_results)\<close>: without a key no request is
  made; every exception of the \<^verbatim>\<open>try\<close> block is caught and gives the empty list.
\<close>

definition fetch_news_serpapi :: "env \<Rightarrow> world \<Rightarrow> string \<Rightarrow> int \<Rightarrow> json list result \<times> world" where
  "fetch_news_serpapi e w0 company_name max_results =
     (let w = log_call (CallSerpapi max_results) w0 in
      if \<not> key_set (SERPAPI_KEY e) then (Inr [], w)
      else (let (r, w') = requests_get w
            in (case serpapi_body r max_results of
                  Inl _ \<Rightarrow> Inr []
                | Inr articles \<Rightarrow> Inr articles, w')))"

text \<open>
  Bing. \<^verbatim>\<open>item.get("provider")[0]["name"] if item.get("provider") else None\<close>: a
  truthy provider must be a list whose first element is a dictionary with the key
  \<^verbatim>\<open>name\<close>, or the expression raises.
\<close>

definition bing_source :: "json \<Rightarrow> json result" where
  "bing_source provider =
     (if \<not> truthy provider then Inr JNull
      else bind_result (py_index0 provider) (\<lambda>p.
           case p of
             JDict pd \<Rightarrow> (case map_of pd ''name'' of None \<Rightarrow> Inl KeyError | Some v \<Rightarrow> Inr v)
           | _ \<Rightarrow> Inl TypeError))"

definition bing_article :: "json \<Rightarrow> json result" where
  "bing_article item =
     (case item of
        JDict d \<Rightarrow>
          bind_result (bing_source (dict_get d ''provider'')) (\<lambda>src.
          Inr (JDict
            [(''title'', dict_get d ''name''),
             (''url'', dict_get d ''url''),
             (''source'', src),
             (''snippet'', dict_get d ''description''),
             (''published'', dict_get d ''datePublished''),
             (''raw'', item)]))
      | _ \<Rightarrow> Inl AttributeError)"

definition bing_body :: "response \<Rightarrow> int \<Rightarrow> json list result" where
  "bing_body r max_results =
     bind_result (response_json r) (\<lambda>data.
     bind_result (py_get_default data ''value'' (JList [])) (\<lambda>items.
     bind_result (py_slice_iter items max_results) (map_result bing_article)))"

definition fetch_news_bing :: "env \<Rightarrow> world \<Rightarrow> string \<Rightarrow> int \<Rightarrow> json list result \<times> world" where
  "fetch_news_bing e w0 company_name max_results =
     (let w = log_call (CallBing max_results) w0 in
      if \<not> key_set (BING_KEY e) then (Inr [], w)
      else (let (r, w') = requests_get w
            in (case bing_body r max_results of
                  Inl _ \<Rightarrow> Inr []
                | Inr articles \<Rightarrow> Inr articles, w')))"

text \<open>
  GDELT needs no key. After the articles are built, a truthy \<^verbatim>\<open>published\<close> that
  \<^verbatim>\<open>strptime\<close> can read is replaced by its ISO form; when \<^verbatim>\<open>strptime\<close> raises the
  value stays.
\<close>

definition gdelt_article :: "json \<Rightarrow> json result" where
  "gdelt_article item =
     (case item of
        JDict d \<Rightarrow>
          Inr (JDict
            [(''title'', dict_get d ''title''),
             (''url'', dict_get d ''url''),
             (''source'', dict_get d ''domain''),
             (''snippet'', py_or (dict_get d ''seendescription'') (dict_get d ''title'')),
             (''published'', dict_get d ''seendate''),
             (''raw'', item)])
      | _ \<Rightarrow> Inl AttributeError)"

definition gdelt_date :: "env \<Rightarrow> json \<Rightarrow> json" where
  "gdelt_date e a =
     (case a of
        JDict d \<Rightarrow>
          (case dict_get d ''published'' of
             JStr s \<Rightarrow>
               (if s \<noteq> [] then
                  (case strptime_gdelt e s of
                     Some stamp \<Rightarrow> JDict (dict_set d ''published'' (JStr stamp))
                   | None \<Rightarrow> a)
                else a)
           | _ \<Rightarrow> a)
      | _ \<Rightarrow> a)"

definition gdelt_body :: "env \<Rightarrow> response \<Rightarrow> int \<Rightarrow> json list result" where
  "gdelt_body e r max_results =
     bind_result (response_json r) (\<lambda>data.
     bind_result (py_get_default data ''articles'' (JList [])) (\<lambda>items.
     bind_result (py_slice_iter items max_results) (\<lambda>sliced.
     bind_result (map_result gdelt_article sliced) (\<lambda>articles.
     Inr (map (gdelt_date e) articles)))))"

definition fetch_news_gdelt :: "env \<Rightarrow> world \<Rightarrow> string \<Rightarrow> int \<Rightarrow> json list result \<times> world" where
  "fetch_news_gdelt e w0 company_name max_results =
     (let w = log_call (CallGdelt max_results) w0 in
      (let (r, w') = requests_get w
       in (case gdelt_body e r max_results of
             Inl _ \<Rightarrow> Inr []
           | Inr articles \<Rightarrow> Inr articles, w')))"

subsection \<open>HTML fallback and the aggregator\<close>

text \<open>Sequencing of calls that change the world and may raise.\<close>

definition bind_io ::
  "'a result \<times> world \<Rightarrow> ('a \<Rightarrow> world \<Rightarrow> 'b result \<times> world) \<Rightarrow> 'b result \<times> world" where
  "bind_io m f = (case m of (Inl err, w) \<Rightarrow> (Inl err, w) | (Inr x, w) \<Rightarrow> f x w)"

definition cons_result :: "'a \<Rightarrow> 'a list result \<times> world \<Rightarrow> 'a list result \<times> world" where
  "cons_result x m = bind_io m (\<lambda>xs w. (Inr (x # xs), w))"

text \<open>
  The test of \<^verbatim>\<open>enrich_with_html_fallback\<close> on an article, without the budget:
  \<^verbatim>\<open>(not a.get("headline") or not a.get("summary")) and a.get("source_url")\<close>.
\<close>

definition needs_enrichment :: "(string \<times> json) list \<Rightarrow> bool" where
  "needs_enrichment d =
     ((\<not> truthy (dict_get d ''headline'') \<or> \<not> truthy (dict_get d ''summary''))
      \<and> truthy (dict_get d ''source_url''))"

text \<open>The two assignments to \<^verbatim>\<open>a["headline"]\<close> and \<^verbatim>\<open>a["summary"]\<close>.\<close>

definition enriched_article :: "(string \<times> json) list \<Rightarrow> metadata \<Rightarrow> (string \<times> json) list" where
  "enriched_article d meta =
     (let d1 = dict_set d ''headline'' (py_or (dict_get d ''headline'') (opt_json (meta_title meta)))
      in dict_set d1 ''summary''
           (py_or (py_or (dict_get d1 ''summary'') (opt_json (meta_description_text meta)))
              (opt_json (meta_evidence_snippet meta))))"

text \<open>
  The loop of \<^verbatim>\<open>enrich_with_html_fallback\<close> over the articles left, with the
  number \<open>count\<close> of enrichments made so far. The articles of the list are distinct
  objects, so the article the loop changes is the one it returns at that place.
  \<^verbatim>\<open>count\<close> grows only when the fetch gave text.
\<close>

fun enrich_loop :: "env \<Rightarrow> int \<Rightarrow> json list \<Rightarrow> int \<Rightarrow> world \<Rightarrow> json list result \<times> world" where
  "enrich_loop e max_fallback [] count w = (Inr [], w)"
| "enrich_loop e max_fallback (a # rest) count w =
     (case a of
        JDict d \<Rightarrow>
          if needs_enrichment d \<and> count < max_fallback then
            (case fetch_url e w (dict_get d ''source_url'') True 3 of
               (Inl err, w') \<Rightarrow> (Inl err, w')
             | (Inr got, w') \<Rightarrow>
                 (case raw_text got of
                    None \<Rightarrow> cons_result a (enrich_loop e max_fallback rest count w')
                  | Some body \<Rightarrow>
                      if body = [] then cons_result a (enrich_loop e max_fallback rest count w')
                      else cons_result
                             (JDict (enriched_article d
                                (extract_basic_metadata e w' body (dict_get d ''source_url''))))
                             (enrich_loop e max_fallback rest (count + 1) w')))
          else cons_result a (enrich_loop e max_fallback rest count w)
      | _ \<Rightarrow> (Inl AttributeError, w))"

definition enrich_with_html_fallback ::
  "env \<Rightarrow> world \<Rightarrow> json list \<Rightarrow> int \<Rightarrow> json list result \<times> world" where
  "enrich_with_html_fallback e w articles max_fallback = enrich_loop e max_fallback articles 0 w"

text \<open>
  \<^verbatim>\<open>normalize_date\<close>: \<^verbatim>\<open>None\<close> for a falsy value; the ISO form when the parser
  reads the string; the value itself when the parser raises, as it does on
  anything that is not a string.
\<close>

definition normalize_date :: "env \<Rightarrow> json \<Rightarrow> json" where
  "normalize_date e dt_str =
     (if \<not> truthy dt_str then JNull
      else (case dt_str of
              JStr s \<Rightarrow> (case parse_date e s of Some stamp \<Rightarrow> JStr stamp | None \<Rightarrow> dt_str)
            | _ \<Rightarrow> dt_str))"

text \<open>
  Steps 1 to 3 of \<^verbatim>\<open>fetch_company_news_multi\<close>: SerpApi with the whole quota,
  then Bing and GDELT, each only while fewer than \<open>max_results\<close> articles are
  collected, and with what is still missing as its quota.
\<close>

definition tier_chain :: "env \<Rightarrow> world \<Rightarrow> string \<Rightarrow> int \<Rightarrow> json list result \<times> world" where
  "tier_chain e w company_name max_results =
     bind_io (fetch_news_serpapi e w company_name max_results) (\<lambda>a1 w1.
     bind_io
       (if int (length a1) < max_results
        then bind_io (fetch_news_bing e w1 company_name (max_results - int (length a1)))
               (\<lambda>b w2. (Inr (a1 @ b), w2))
        else (Inr a1, w1)) (\<lambda>a2 w2.
     if int (length a2) < max_results
     then bind_io (fetch_news_gdelt e w2 company_name (max_results - int (length a2)))
            (\<lambda>c w3. (Inr (a2 @ c), w3))
     else (Inr a2, w2)))"

text \<open>One entry of the normalised list.\<close>

definition normalized_item :: "env \<Rightarrow> world \<Rightarrow> json \<Rightarrow> json result" where
  "normalized_item e w a =
     (case a of
        JDict d \<Rightarrow>
          Inr (JDict
            [(''headline'', py_or (dict_get d ''title'') (dict_get d ''headline'')),
             (''summary'', py_or (dict_get d ''snippet'') (dict_get d ''summary'')),
             (''source_url'', py_or (dict_get d ''url'') (dict_get d ''source_url'')),
             (''published'', normalize_date e (dict_get d ''published'')),
             (''source_name'', dict_get d ''source''),
             (''fetched'', JStr (isoformat e (clock w))),
             (''provenance'', py_or (dict_get d ''raw'') (JDict []))])
      | _ \<Rightarrow> Inl AttributeError)"

text \<open>
  \<^verbatim>\<open>fetch_company_news_multi(company_name, max_results, use_cache)\<close>: the cached
  value when it is truthy; otherwise the tiers, the enrichment with a budget of 3,
  the normalisation of \<^verbatim>\<open>articles[:max_results]\<close>, and the write to the cache.
\<close>

definition fetch_company_news_multi ::
  "env \<Rightarrow> world \<Rightarrow> string \<Rightarrow> int \<Rightarrow> bool \<Rightarrow> json result \<times> world" where
  "fetch_company_news_multi e w company_name max_results use_cache =
     (if use_cache \<and> truthy (load_cache w company_name 24)
      then (Inr (load_cache w company_name 24), w)
      else
        bind_io (tier_chain e w company_name max_results) (\<lambda>articles w1.
        bind_io (enrich_with_html_fallback e w1 articles 3) (\<lambda>enriched w2.
        bind_io (map_result (normalized_item e w2) (py_slice_to enriched max_results), w2)
          (\<lambda>norm w3.
        if use_cache
        then bind_io (save_cache w3 company_name (JList norm)) (\<lambda>_ w4. (Inr (JList norm), w4))
        else (Inr (JList norm), w3)))))"

subsection \<open>Notions used in the statements\<close>

text \<open>
  The keys of the dictionaries the three adapters build, and the parts of the
  world that a request leaves alone.
\<close>

definition tier_keys :: "string list" where
  "tier_keys = [''title'', ''url'', ''source'', ''snippet'', ''published'', ''raw'']"

definition tier_article :: "json \<Rightarrow> bool" where
  "tier_article a = (case a of JDict d \<Rightarrow> map fst d = tier_keys | _ \<Rightarrow> False)"

definition same_store :: "world \<Rightarrow> world \<Rightarrow> bool" where
  "same_store w w' =
     (archive w' = archive w \<and> news_cache w' = news_cache w
      \<and> cache_writable w' = cache_writable w \<and> clock w' = clock w)"

section \<open>clinical_trials.py\<close>

subsection \<open>Phase labels\<close>

text \<open>
  \<^verbatim>\<open>_normalize_phase(raw_phase)\<close>: a falsy argument gives \<^verbatim>\<open>unknown\<close>; otherwise
  \<^verbatim>\<open>raw_phase.lower()\<close> is taken, which only a string has, and the chain of
  substring tests runs in the order of the source.
\<close>

definition phase_of_label :: "string \<Rightarrow> string" where
  "phase_of_label phase =
     (if contains phase ''1/2'' then ''phase1_2''
      else if contains phase ''2/3'' then ''phase2_3''
      else if contains phase ''1'' then ''phase1''
      else if contains phase ''2'' then ''phase2''
      else if contains phase ''3'' then ''phase3''
      else if contains phase ''4'' then ''phase4''
      else if contains phase ''not applicable'' then ''not_applicable''
      else ''unknown'')"

definition normalize_phase :: "json \<Rightarrow> string result" where
  "normalize_phase raw_phase =
     (if \<not> truthy raw_phase then Inr ''unknown''
      else case raw_phase of
             JStr s \<Rightarrow> Inr (phase_of_label (lower s))
           | _ \<Rightarrow> Inl AttributeError)"

definition phase_labels :: "string list" where
  "phase_labels =
     [''phase1'', ''phase2'', ''phase3'', ''phase4'', ''phase1_2'', ''phase2_3'',
      ''not_applicable'', ''unknown'']"


subsection \<open>Fetching and normalising trials\<close>

text \<open>
  \<^verbatim>\<open>fetch_trials\<close> has no \<^verbatim>\<open>try\<close>: a failed request, an error status (through
  \<^verbatim>\<open>raise_for_status\<close>) and a body that is not JSON leave it as exceptions. A decoded
  body is returned when it is a dictionary with the key \<^verbatim>\<open>studies\<close>, wrapped when
  it is a list, and replaced by an empty study list otherwise.
\<close>

definition fetch_trials :: "world \<Rightarrow> json \<Rightarrow> int \<Rightarrow> json result \<times> world" where
  "fetch_trials w company_name max_records =
     (let (r, w') = requests_get w
      in (bind_result (response_json r) (\<lambda>data.
            case data of
              JDict d \<Rightarrow>
                (if map_of d ''studies'' \<noteq> None then Inr data
                 else Inr (JDict [(''studies'', JList [])]))
            | JList xs \<Rightarrow> Inr (JDict [(''studies'', data)])
            | _ \<Rightarrow> Inr (JDict [(''studies'', JList [])])), w'))"

text \<open>\<^verbatim>\<open>" | ".join(parts)\<close>\<close>

fun join_parts :: "string list \<Rightarrow> string" where
  "join_parts [] = []"
| "join_parts [p] = p"
| "join_parts (p # q # ps) = p @ '' | '' @ join_parts (q # ps)"

text \<open>
  \<^verbatim>\<open>_build_snippet(protocol)\<close>. The title is appended as it is, so \<^verbatim>\<open>join\<close> raises
  when it is truthy and not a string; the other two parts are formatted strings.
\<close>

definition build_snippet :: "env \<Rightarrow> json \<Rightarrow> string result" where
  "build_snippet e protocol =
     bind_result (py_get_default protocol ''identificationModule'' (JDict [])) (\<lambda>ident.
     bind_result (py_get_default protocol ''conditionsModule'' (JDict [])) (\<lambda>cm.
     bind_result (py_get_default cm ''conditions'' (JList [])) (\<lambda>conditions.
     bind_result (py_get_default protocol ''armsInterventionsModule'' (JDict [])) (\<lambda>am.
     bind_result (py_get_default am ''interventions'' (JList [])) (\<lambda>interventions.
     bind_result (py_get ident ''briefTitle'') (\<lambda>brief.
     bind_result
       (if truthy conditions
        then bind_result (py_index0 conditions) (\<lambda>c. Inr [''Condition: '' @ py_str e c])
        else Inr []) (\<lambda>p2.
     bind_result
       (if truthy interventions
        then bind_result (py_index0 interventions) (\<lambda>i0.
             bind_result (py_get i0 ''name'') (\<lambda>nm. Inr [''Intervention: '' @ py_str e nm]))
        else Inr []) (\<lambda>p3.
     if truthy brief
     then (case brief of
             JStr t \<Rightarrow> Inr (take 150 (join_parts ([t] @ p2 @ p3)))
           | _ \<Rightarrow> Inl TypeError)
     else Inr (take 150 (join_parts (p2 @ p3)))))))))))"

text \<open>The dictionary built for one trial; its keys are fixed.\<close>

record trial =
  nct :: json
  status :: json
  phase :: string
  condition :: json
  intervention :: json
  source_url :: string
  fetched :: string
  evidence_snippet :: string
  matched_variant :: json

text \<open>
  The key under which the set \<^verbatim>\<open>seen\<close> keeps a value. Lists and dictionaries
  cannot be hashed; \<^verbatim>\<open>True\<close> and \<^verbatim>\<open>False\<close> are the keys 1 and 0.
\<close>

definition hash_key :: "json \<Rightarrow> json result" where
  "hash_key v =
     (case v of
        JList _ \<Rightarrow> Inl TypeError
      | JDict _ \<Rightarrow> Inl TypeError
      | JBool b \<Rightarrow> Inr (JNum (if b then 1 else 0))
      | _ \<Rightarrow> Inr v)"

text \<open>
  The statements of the loop body from \<^verbatim>\<open>phase_raw = ...\<close> to the end of the
  dictionary display, in the order in which Python evaluates them.
\<close>

definition make_trial :: "env \<Rightarrow> world \<Rightarrow> json \<Rightarrow> json \<Rightarrow> json \<Rightarrow> json \<Rightarrow> trial result" where
  "make_trial e w variant protocol status_module nct_id =
     bind_result (py_get_default protocol ''designModule'' (JDict [])) (\<lambda>design.
     bind_result (py_get_default design ''phases'' (JList [JStr ''Unknown''])) (\<lambda>phases.
     bind_result (py_index0 phases) (\<lambda>phase_raw.
     bind_result (normalize_phase phase_raw) (\<lambda>ph.
     bind_result (py_get_default status_module ''overallStatus'' (JStr ''Unknown'')) (\<lambda>st.
     bind_result (py_get_default protocol ''conditionsModule'' (JDict [])) (\<lambda>cm.
     bind_result (py_get_default cm ''conditions'' (JList [JNull])) (\<lambda>conds.
     bind_result (py_index0 conds) (\<lambda>cond.
     bind_result (py_get_default protocol ''armsInterventionsModule'' (JDict [])) (\<lambda>am.
     bind_result (py_get_default am ''interventions'' (JList [JDict []])) (\<lambda>ivs.
     bind_result (py_index0 ivs) (\<lambda>iv0.
     bind_result (py_get iv0 ''name'') (\<lambda>iv.
     bind_result (build_snippet e protocol) (\<lambda>snippet.
     Inr \<lparr>nct = nct_id, status = st, phase = ph, condition = cond, intervention = iv,
          source_url = ''https://clinicaltrials.gov/study/'' @ py_str e nct_id,
          fetched = isoformat e (clock w), evidence_snippet = snippet,
          matched_variant = variant\<rparr>)))))))))))))"

text \<open>
  The body of \<^verbatim>\<open>for s in studies\<close> on the pair of \<^verbatim>\<open>seen\<close> and \<^verbatim>\<open>candidates\<close>. A
  study that is not a dictionary, has a falsy \<^verbatim>\<open>nctId\<close>, or has one that is in
  \<^verbatim>\<open>seen\<close> is skipped by \<^verbatim>\<open>continue\<close>.
\<close>

definition study_step ::
  "env \<Rightarrow> world \<Rightarrow> json \<Rightarrow> json \<Rightarrow> json list \<times> trial list \<Rightarrow> (json list \<times> trial list) result" where
  "study_step e w variant s st =
     (case s of
        JDict sd \<Rightarrow>
          (let protocol = dict_get_default sd ''protocolSection'' (JDict []) in
           bind_result (py_get_default protocol ''identificationModule'' (JDict [])) (\<lambda>ident.
           bind_result (py_get_default protocol ''statusModule'' (JDict [])) (\<lambda>status_module.
           bind_result (py_get ident ''nctId'') (\<lambda>nct_id.
           if \<not> truthy nct_id then Inr st
           else bind_result (hash_key nct_id) (\<lambda>k.
                if k \<in> set (fst st) then Inr st
                else bind_result (make_trial e w variant protocol status_module nct_id) (\<lambda>t.
                     Inr (k # fst st, snd st @ [t])))))))
      | _ \<Rightarrow> Inr st)"

fun studies_loop ::
  "env \<Rightarrow> world \<Rightarrow> json \<Rightarrow> json list \<Rightarrow> json list \<times> trial list \<Rightarrow> (json list \<times> trial list) result" where
  "studies_loop e w variant [] st = Inr st"
| "studies_loop e w variant (s # ss) st =
     (case study_step e w variant s st of
        Inl err \<Rightarrow> Inl err
      | Inr st' \<Rightarrow> studies_loop e w variant ss st')"

text \<open>
  The argument \<^verbatim>\<open>raw_results\<close> is one dictionary, or a list whose items are
  pairs \<^verbatim>\<open>(variant, raw_json)\<close> or other values.
\<close>

datatype batch_item = Tuple2 json json | Other json

datatype raw_results = SingleDict "(string \<times> json) list" | ItemList "batch_item list"

definition item_variant :: "string \<Rightarrow> batch_item \<Rightarrow> json" where
  "item_variant company item = (case item of Tuple2 v _ \<Rightarrow> v | Other _ \<Rightarrow> JStr company)"

definition item_json :: "batch_item \<Rightarrow> json" where
  "item_json item = (case item of Tuple2 _ r \<Rightarrow> r | Other r \<Rightarrow> r)"

fun items_loop ::
  "env \<Rightarrow> world \<Rightarrow> string \<Rightarrow> batch_item list \<Rightarrow> json list \<times> trial list
     \<Rightarrow> (json list \<times> trial list) result" where
  "items_loop e w company [] st = Inr st"
| "items_loop e w company (item # items) st =
     (case bind_result (py_get_default (item_json item) ''studies'' (JList [])) (\<lambda>studies.
           bind_result (py_iter studies) (\<lambda>ss.
           studies_loop e w (item_variant company item) ss st)) of
        Inl err \<Rightarrow> Inl err
      | Inr st' \<Rightarrow> items_loop e w company items st')"

text \<open>\<^verbatim>\<open>counts[t["phase"]] = counts.get(t["phase"], 0) + 1\<close>\<close>

definition bump :: "(string \<times> nat) list \<Rightarrow> string \<Rightarrow> (string \<times> nat) list" where
  "bump counts p = AList.update p ((case map_of counts p of None \<Rightarrow> 0 | Some n \<Rightarrow> n) + 1) counts"

record pipeline =
  candidates :: "trial list"
  counts_by_phase :: "(string \<times> nat) list"

record normalized_trials =
  company_name :: string
  pipeline :: pipeline

definition batch_items :: "raw_results \<Rightarrow> string \<Rightarrow> batch_item list" where
  "batch_items raw company =
     (case raw of
        SingleDict d \<Rightarrow> [Tuple2 (JStr company) (JDict d)]
      | ItemList items \<Rightarrow> items)"

definition normalize_trials :: "env \<Rightarrow> world \<Rightarrow> raw_results \<Rightarrow> string \<Rightarrow> normalized_trials result" where
  "normalize_trials e w raw company =
     bind_result (items_loop e w company (batch_items raw company) ([], [])) (\<lambda>st.
     Inr \<lparr>company_name = company,
          pipeline = \<lparr>candidates = snd st,
                      counts_by_phase = foldl bump [] (map phase (snd st))\<rparr>\<rparr>)"

section \<open>edgar_financials.py\<close>

text \<open>
  \<^verbatim>\<open>os.path.join\<close> on two components: a component that starts with a slash
  replaces what came before.
\<close>

definition path_join :: "string \<Rightarrow> string \<Rightarrow> string" where
  "path_join a b =
     (if b \<noteq> [] \<and> hd b = CHR ''/'' then b
      else if a = [] \<or> last a = CHR ''/'' then a @ b
      else a @ ''/'' @ b)"

text \<open>
  What the downloader and the file system give: whether \<^verbatim>\<open>dl.get(form, id, limit)\<close>
  returns (or raises), the working directory, the entries of a directory (\<open>None\<close>
  when the path does not exist) and whether a file exists.
\<close>

record edgar_env =
  dl_get :: "string \<Rightarrow> json \<Rightarrow> int \<Rightarrow> bool"
  getcwd :: string
  listdir :: "string \<Rightarrow> string list option"
  file_exists :: "string \<Rightarrow> bool"
  utcnow_iso :: string
  str_builtin :: "json \<Rightarrow> string"

text \<open>
  One round of \<^verbatim>\<open>for form in ["10-K", "10-Q"]\<close>: the filings it appends, and
  nothing when the \<^verbatim>\<open>try\<close> block raises (the download fails, or the truthy
  ticker is not a string and \<^verbatim>\<open>os.path.join\<close> raises).
\<close>

definition form_filings :: "edgar_env \<Rightarrow> json \<Rightarrow> json \<Rightarrow> int \<Rightarrow> string \<Rightarrow> json list" where
  "form_filings fs ticker cik count form =
     (if \<not> dl_get fs form (py_or ticker cik) count then []
      else (case py_or ticker (JStr (str_builtin fs cik)) of
              JStr ident \<Rightarrow>
                (let base_path =
                       path_join (path_join (path_join (getcwd fs) ''sec-edgar-filings'') ident) form
                 in case listdir fs base_path of
                      None \<Rightarrow> []
                    | Some entries \<Rightarrow>
                        concat (map (\<lambda>folder.
                          (let filing_path =
                                 path_join (path_join base_path folder) ''full-submission.txt''
                           in if file_exists fs filing_path
                              then [JDict
                                [(''form'', JStr form),
                                 (''filing_date'', JStr folder),
                                 (''file_path'', JStr filing_path),
                                 (''source_url'',
                                    JStr (''https://www.sec.gov/Archives/edgar/data/''
                                          @ str_builtin fs (py_or cik ticker) @ ''/'' @ folder
                                          @ ''/index.html'')),
                                 (''fetched'', JStr (utcnow_iso fs))]]
                              else []))
                          (py_slice_to (rev (sort entries)) count)))
            | _ \<Rightarrow> []))"

text \<open>
  \<^verbatim>\<open>fetch_edgar_filings(ticker, cik, count)\<close>: the filings, and the list of the
  downloads it asked for (form and identifier), which are its network calls.
\<close>

definition fetch_edgar_filings ::
  "edgar_env \<Rightarrow> json \<Rightarrow> json \<Rightarrow> int \<Rightarrow> json list \<times> (string \<times> json) list" where
  "fetch_edgar_filings fs ticker cik count =
     (if \<not> truthy ticker \<and> \<not> truthy cik then ([], [])
      else (concat (map (form_filings fs ticker cik count) [''10-K'', ''10-Q'']),
            map (\<lambda>form. (form, py_or ticker cik)) [''10-K'', ''10-Q'']))"

text \<open>\<^verbatim>\<open>f[k]\<close> for a string key: the value of the key in a dictionary.\<close>

definition py_item :: "json \<Rightarrow> string \<Rightarrow> json result" where
  "py_item x k =
     (case x of
        JDict d \<Rightarrow> (case map_of d k of None \<Rightarrow> Inl KeyError | Some v \<Rightarrow> Inr v)
      | _ \<Rightarrow> Inl TypeError)"

record financials =
  public :: bool
  filings :: "json list"
  provenance :: "json list"

definition provenance_entry :: "edgar_env \<Rightarrow> json \<Rightarrow> json result" where
  "provenance_entry fs f =
     bind_result (py_item f ''source_url'') (\<lambda>url.
     bind_result (py_item f ''fetched'') (\<lambda>at.
     bind_result (py_item f ''form'') (\<lambda>form.
     bind_result (py_item f ''filing_date'') (\<lambda>day.
     Inr (JDict
       [(''source_url'', url),
        (''source_type'', JStr ''edgar''),
        (''fetched'', at),
        (''evidence_snippet'',
           JStr (str_builtin fs form @ '' filing on '' @ str_builtin fs day))])))))"

definition normalize_financials :: "edgar_env \<Rightarrow> json list \<Rightarrow> bool \<Rightarrow> financials result" where
  "normalize_financials fs fl is_public =
     (if \<not> is_public then Inr \<lparr>public = False, filings = [], provenance = []\<rparr>
      else if fl = [] then Inr \<lparr>public = True, filings = [], provenance = []\<rparr>
      else bind_result (map_result (provenance_entry fs) fl) (\<lambda>prov.
           Inr \<lparr>public = True, filings = fl, provenance = prov\<rparr>))"

section \<open>Notions and sample inputs of the statements\<close>

text \<open>
  A configuration with both keys set and parsers that read nothing, an empty
  world whose network always fails, and a file system without filings. The
  examples below start from them.
\<close>

definition env0 :: env where
  "env0 = \<lparr>SERPAPI_KEY = Some ''k1'', BING_KEY = Some ''k2'', sha256_hex16 = take 16,
            parse_html = (\<lambda>_. None), parse_date = (\<lambda>_. None), strptime_gdelt = (\<lambda>_. None),
            isoformat = (\<lambda>_. ''T''), py_str = (\<lambda>_. ''?'')\<rparr>"

definition world0 :: world where
  "world0 = \<lparr>archive = Map.empty, news_cache = Map.empty, cache_writable = True,
              pending = [], clock = 0, trace = []\<rparr>"

definition edgar0 :: edgar_env where
  "edgar0 = \<lparr>dl_get = (\<lambda>_ _ _. True), getcwd = ''/work'', listdir = (\<lambda>_. None),
             file_exists = (\<lambda>_. False), utcnow_iso = ''T'', str_builtin = (\<lambda>_. ''?'')\<rparr>"

text \<open>
  A world whose network answers the first request with one SerpApi result that
  has a link and nothing else, and the article the adapter builds from it.
\<close>

definition serp_world :: world where
  "serp_world = world0\<lparr>pending :=
     [Responded [] (Some (JDict [(''news_results'',
        JList [JDict [(''link'', JStr ''http://a.example/1'')]])]))]\<rparr>"

definition serp_article :: json where
  "serp_article = JDict
     [(''title'', JNull), (''url'', JStr ''http://a.example/1''), (''source'', JNull),
      (''snippet'', JNull), (''published'', JNull),
      (''raw'', JDict [(''link'', JStr ''http://a.example/1'')])]"

text \<open>
  A world in which SerpApi answers with one result, Bing with an error status and
  GDELT with one article.
\<close>

definition quota_world :: world where
  "quota_world = world0\<lparr>pending :=
     [Responded [] (Some (JDict [(''news_results'',
        JList [JDict [(''link'', JStr ''http://a.example/1'')]])])),
      HttpStatusError,
      Responded [] (Some (JDict [(''articles'',
        JList [JDict [(''url'', JStr ''http://g.example/2'')]])]))]\<rparr>"

definition stored_item :: json where
  "stored_item = JDict [(''headline'', JStr ''Acme buys Bolt''), (''summary'', JNull)]"

text \<open>
  The number of places at which two lists differ, the fields of an article other
  than \<^verbatim>\<open>headline\<close> and \<^verbatim>\<open>summary\<close>, and the relation between an article and
  what an enrichment may make of it: the other fields are the same, and a
  headline or summary that was truthy has kept its value.
\<close>

definition changes :: "json list \<Rightarrow> json list \<Rightarrow> nat" where
  "changes xs ys = length (filter (\<lambda>p. fst p \<noteq> snd p) (zip xs ys))"

definition other_fields :: "(string \<times> json) list \<Rightarrow> (string \<times> json) list" where
  "other_fields d = AList.delete ''headline'' (AList.delete ''summary'' d)"

definition fills_only_missing :: "json \<Rightarrow> json \<Rightarrow> bool" where
  "fills_only_missing a b =
     (case a of
        JDict d \<Rightarrow>
          (case b of
             JDict d' \<Rightarrow>
               other_fields d' = other_fields d
               \<and> (truthy (dict_get d ''headline'') \<longrightarrow>
                    dict_get d' ''headline'' = dict_get d ''headline'')
               \<and> (truthy (dict_get d ''summary'') \<longrightarrow>
                    dict_get d' ''summary'' = dict_get d ''summary'')
           | _ \<Rightarrow> False)
      | _ \<Rightarrow> a = b)"

text \<open>
  Five articles without a headline, each with a summary and a source URL; a
  parser that finds the title \<^verbatim>\<open>T\<close> in every page; and a network that answers the
  first page, fails three times on the second, and answers the third and fourth.
\<close>

definition bare_article :: "string \<Rightarrow> json" where
  "bare_article u =
     JDict [(''headline'', JNull), (''summary'', JStr ''given''), (''source_url'', JStr u)]"

definition titled_article :: "string \<Rightarrow> json" where
  "titled_article u =
     JDict [(''headline'', JStr ''T''), (''summary'', JStr ''given''), (''source_url'', JStr u)]"

definition five_articles :: "json list" where
  "five_articles = map bare_article [''u1'', ''u2'', ''u3'', ''u4'', ''u5'']"

definition env_html :: env where
  "env_html = env0\<lparr>parse_html := (\<lambda>_. Some \<lparr>title_string = Some ''T'', h1_string = None,
                                               meta_description = None, og_description = None\<rparr>)\<rparr>"

definition web_world :: world where
  "web_world = world0\<lparr>pending :=
     [Responded ''page'' None, HttpStatusError, HttpStatusError, HttpStatusError,
      Responded ''page'' None, Responded ''page'' None]\<rparr>"

text \<open>
  Notions for the statement about duplicates. \<open>key_of\<close> is the key of a hashable
  value in a set. \<open>study_key\<close> is the key of the \<^verbatim>\<open>nctId\<close> a study carries, when it
  is a dictionary with a truthy, hashable \<^verbatim>\<open>nctId\<close>. \<open>trial_of_study\<close> is the record
  the loop body builds from a study under a variant. \<open>occurrences\<close> lists, in the
  order in which \<^verbatim>\<open>normalize_trials\<close> walks through its argument, every study
  that has a key, as the key with the variant it stands under and the study.
\<close>

definition key_of :: "json \<Rightarrow> json" where
  "key_of v = (case v of JBool b \<Rightarrow> JNum (if b then 1 else 0) | _ \<Rightarrow> v)"

definition study_ident :: "json \<Rightarrow> json result" where
  "study_ident s =
     (case s of
        JDict sd \<Rightarrow>
          bind_result
            (py_get_default (dict_get_default sd ''protocolSection'' (JDict []))
               ''identificationModule'' (JDict []))
            (\<lambda>ident. py_get ident ''nctId'')
      | _ \<Rightarrow> Inl TypeError)"

definition study_key :: "json \<Rightarrow> json option" where
  "study_key s =
     (case study_ident s of
        Inr nct_id \<Rightarrow>
          (if truthy nct_id
           then (case hash_key nct_id of Inr k \<Rightarrow> Some k | Inl _ \<Rightarrow> None)
           else None)
      | Inl _ \<Rightarrow> None)"

definition trial_of_study :: "env \<Rightarrow> world \<Rightarrow> json \<Rightarrow> json \<Rightarrow> trial result" where
  "trial_of_study e w variant s =
     (case s of
        JDict sd \<Rightarrow>
          (let protocol = dict_get_default sd ''protocolSection'' (JDict []) in
           bind_result (py_get_default protocol ''statusModule'' (JDict [])) (\<lambda>status_module.
           bind_result (study_ident s) (\<lambda>nct_id.
           make_trial e w variant protocol status_module nct_id)))
      | _ \<Rightarrow> Inl TypeError)"

definition item_studies :: "batch_item \<Rightarrow> json list" where
  "item_studies item =
     (case bind_result (py_get_default (item_json item) ''studies'' (JList [])) py_iter of
        Inr ss \<Rightarrow> ss
      | Inl _ \<Rightarrow> [])"

definition study_occurrence :: "json \<Rightarrow> json \<Rightarrow> (json \<times> json \<times> json) list" where
  "study_occurrence variant s =
     (case study_key s of None \<Rightarrow> [] | Some k \<Rightarrow> [(k, variant, s)])"

definition occurrences :: "string \<Rightarrow> batch_item list \<Rightarrow> (json \<times> json \<times> json) list" where
  "occurrences company items =
     concat (map (\<lambda>item.
       concat (map (study_occurrence (item_variant company item)) (item_studies item))) items)"

text \<open>
  What holds of \<^verbatim>\<open>seen\<close> and \<^verbatim>\<open>candidates\<close> after the occurrences \<open>occ\<close> have been
  walked through: \<^verbatim>\<open>seen\<close> holds their keys, the candidates have these keys, each
  once, and every candidate is the record built from the first occurrence of its
  key.
\<close>

definition dedup_inv ::
  "env \<Rightarrow> world \<Rightarrow> (json \<times> json \<times> json) list \<Rightarrow> json list \<times> trial list \<Rightarrow> bool" where
  "dedup_inv e w occ st =
     (set (fst st) = fst ` set occ
      \<and> set (map (\<lambda>t. key_of (nct t)) (snd st)) = fst ` set occ
      \<and> distinct (map (\<lambda>t. key_of (nct t)) (snd st))
      \<and> (\<forall>t \<in> set (snd st). \<exists>v s.
            map_of occ (key_of (nct t)) = Some (v, s)
            \<and> matched_variant t = v \<and> trial_of_study e w v s = Inr t))"

text \<open>
  Two name variants of one company. The first query returns the trial NCT1, which
  is recruiting; the second returns NCT1 again, now completed, and NCT2.
\<close>

definition study_with :: "string \<Rightarrow> string \<Rightarrow> json" where
  "study_with ident st =
     JDict [(''protocolSection'',
       JDict [(''identificationModule'', JDict [(''nctId'', JStr ident)]),
              (''statusModule'', JDict [(''overallStatus'', JStr st)])])]"

definition two_variants :: raw_results where
  "two_variants = ItemList
     [Tuple2 (JStr ''Acme Inc'')
        (JDict [(''studies'', JList [study_with ''NCT1'' ''RECRUITING''])]),
      Tuple2 (JStr ''Acme'')
        (JDict [(''studies'', JList [study_with ''NCT1'' ''COMPLETED'',
                                     study_with ''NCT2'' ''RECRUITING''])])]"

definition summary_of :: "normalized_trials result \<Rightarrow> (json \<times> json \<times> json) list option" where
  "summary_of r =
     (case r of
        Inl _ \<Rightarrow> None
      | Inr res \<Rightarrow> Some (map (\<lambda>t. (nct t, matched_variant t, status t))
                           (candidates (pipeline res))))"

section \<open>Properties\<close>

subsection \<open>Substring tests\<close>

lemma contains_sublist: "contains s sub \<longleftrightarrow> sublist sub s"
  by (induction s) (auto simp: sublist_Cons_right)

lemma contains_append_left: "contains s (a @ b) \<Longrightarrow> contains s a"
  unfolding contains_sublist by (metis sublist_appendI sublist_order.order_trans sublist_append_rightI)

subsection \<open>Phase labels\<close>

text \<open>
  What the classification does on every string. \<open>normalize_phase\<close> returns, and
  the value is one of the eight labels. Two labels that agree after lowering (that
  differ in letter case only) get the same class. The empty string, and every
  string whose lowered form holds none of \<^verbatim>\<open>1\<close>, \<^verbatim>\<open>2\<close>, \<^verbatim>\<open>3\<close>, \<^verbatim>\<open>4\<close> and
  \<^verbatim>\<open>not applicable\<close>, is \<^verbatim>\<open>unknown\<close>. A label holding the block \<^verbatim>\<open>1/2\<close> is
  \<^verbatim>\<open>phase1_2\<close> although it holds \<^verbatim>\<open>1\<close>, and one holding \<^verbatim>\<open>2/3\<close> but not
  \<^verbatim>\<open>1/2\<close> is \<^verbatim>\<open>phase2_3\<close>: the compound tests come first.
\<close>

theorem normalize_phase_classification:
  "(\<exists>r. normalize_phase (JStr s) = Inr r \<and> r \<in> set phase_labels)
   \<and> (lower s = lower t \<longrightarrow> normalize_phase (JStr s) = normalize_phase (JStr t))
   \<and> normalize_phase (JStr []) = Inr ''unknown''
   \<and> (\<not> contains (lower s) ''1'' \<and> \<not> contains (lower s) ''2''
        \<and> \<not> contains (lower s) ''3'' \<and> \<not> contains (lower s) ''4''
        \<and> \<not> contains (lower s) ''not applicable''
      \<longrightarrow> normalize_phase (JStr s) = Inr ''unknown'')
   \<and> (contains (lower s) ''1/2'' \<longrightarrow> normalize_phase (JStr s) = Inr ''phase1_2'')
   \<and> (\<not> contains (lower s) ''1/2'' \<and> contains (lower s) ''2/3''
      \<longrightarrow> normalize_phase (JStr s) = Inr ''phase2_3'')"
proof -
  have total: "\<exists>r. normalize_phase (JStr s) = Inr r \<and> r \<in> set phase_labels"
    by (simp add: normalize_phase_def phase_of_label_def phase_labels_def)
  have nil_iff: "lower s = lower t \<Longrightarrow> (s = []) = (t = [])"
    unfolding lower_def by (metis map_is_Nil_conv)
  have insensitive: "lower s = lower t \<longrightarrow> normalize_phase (JStr s) = normalize_phase (JStr t)"
    using nil_iff by (auto simp: normalize_phase_def)
  have empty: "normalize_phase (JStr []) = Inr ''unknown''"
    by (simp add: normalize_phase_def)
  have no12: "\<not> contains (lower s) ''1'' \<Longrightarrow> \<not> contains (lower s) ''1/2''"
    using contains_append_left [of "lower s" "''1''" "''/2''"] by auto
  have no23: "\<not> contains (lower s) ''2'' \<Longrightarrow> \<not> contains (lower s) ''2/3''"
    using contains_append_left [of "lower s" "''2''" "''/3''"] by auto
  have unrecognised:
    "\<not> contains (lower s) ''1'' \<and> \<not> contains (lower s) ''2''
       \<and> \<not> contains (lower s) ''3'' \<and> \<not> contains (lower s) ''4''
       \<and> \<not> contains (lower s) ''not applicable''
     \<longrightarrow> normalize_phase (JStr s) = Inr ''unknown''"
    using no12 no23 by (auto simp: normalize_phase_def phase_of_label_def)
  have nonempty: "contains (lower s) p \<Longrightarrow> p \<noteq> [] \<Longrightarrow> s \<noteq> []" for p
    by (cases s) (auto simp: lower_def)
  have compound12: "contains (lower s) ''1/2'' \<longrightarrow> normalize_phase (JStr s) = Inr ''phase1_2''"
    using nonempty [of "''1/2''"] by (auto simp: normalize_phase_def phase_of_label_def)
  have compound23:
    "\<not> contains (lower s) ''1/2'' \<and> contains (lower s) ''2/3''
     \<longrightarrow> normalize_phase (JStr s) = Inr ''phase2_3''"
    using nonempty [of "''2/3''"] by (auto simp: normalize_phase_def phase_of_label_def)
  from total insensitive empty unrecognised compound12 compound23 show ?thesis
    by blast
qed

theorem normalize_phase_classification_witness:
  "normalize_phase (JStr ''PHASE 1/2'') = Inr ''phase1_2''
   \<and> normalize_phase (JStr ''PHASE 1/2'') = normalize_phase (JStr ''phase 1/2'')
   \<and> normalize_phase (JStr ''Early'') = Inr ''unknown''
   \<and> normalize_phase (JStr ''Phase 2/3'') = Inr ''phase2_3''"
proof -
  have a: "lower ''PHASE 1/2'' = lower ''phase 1/2''" by code_simp
  have b: "contains (lower ''PHASE 1/2'') ''1/2''" by code_simp
  have c: "\<not> contains (lower ''Early'') ''1'' \<and> \<not> contains (lower ''Early'') ''2''
        \<and> \<not> contains (lower ''Early'') ''3'' \<and> \<not> contains (lower ''Early'') ''4''
        \<and> \<not> contains (lower ''Early'') ''not applicable''" by code_simp
  have d: "\<not> contains (lower ''Phase 2/3'') ''1/2'' \<and> contains (lower ''Phase 2/3'') ''2/3''"
    by code_simp
  show ?thesis
    using a b c d
      normalize_phase_classification [of "''PHASE 1/2''" "''phase 1/2''"]
      normalize_phase_classification [of "''Early''" "''Early''"]
      normalize_phase_classification [of "''Phase 2/3''" "''Phase 2/3''"]
    by blast
qed

text \<open>
  C4. The function has the class \<^verbatim>\<open>phase1_2\<close> and tests for the compound blocks
  before the single digits, so that a compound label is not taken for its first
  phase. The compound label \<^verbatim>\<open>Phase 1/Phase 2\<close> does not hold the block \<^verbatim>\<open>1/2\<close>:
  after the \<^verbatim>\<open>1\<close> comes \<^verbatim>\<open>/P\<close>. The test for \<^verbatim>\<open>1\<close> decides, and the call returns
  \<^verbatim>\<open>phase1\<close> where the claim says \<^verbatim>\<open>phase1_2\<close>. In the same way
  \<^verbatim>\<open>Phase 2/Phase 3\<close> is classified \<^verbatim>\<open>phase2\<close>.
\<close>

theorem normalize_phase_compound_label:
  "normalize_phase (JStr ''Phase 1/Phase 2'') = Inr ''phase1''
   \<and> normalize_phase (JStr ''Phase 1/Phase 2'') \<noteq> Inr ''phase1_2''
   \<and> normalize_phase (JStr ''Phase 2/Phase 3'') = Inr ''phase2''"
  by code_simp

subsection \<open>Provider adapters\<close>

lemma requests_get_fst: "fst (requests_get w) = next_response w"
  by (simp add: requests_get_def next_response_def split: list.splits)

lemma next_response_log_call: "next_response (log_call ev w) = next_response w"
  by (simp add: next_response_def log_call_def)

lemma serpapi_total: "\<exists>xs. fst (fetch_news_serpapi e w name n) = Inr xs"
  by (auto simp: fetch_news_serpapi_def Let_def split: prod.splits sum.splits)

lemma bing_total: "\<exists>xs. fst (fetch_news_bing e w name n) = Inr xs"
  by (auto simp: fetch_news_bing_def Let_def split: prod.splits sum.splits)

lemma gdelt_total: "\<exists>xs. fst (fetch_news_gdelt e w name n) = Inr xs"
  by (auto simp: fetch_news_gdelt_def Let_def split: prod.splits sum.splits)

lemma serpapi_no_key:
  "\<not> key_set (SERPAPI_KEY e) \<Longrightarrow> fst (fetch_news_serpapi e w name n) = Inr []"
  by (simp add: fetch_news_serpapi_def Let_def)

lemma bing_no_key: "\<not> key_set (BING_KEY e) \<Longrightarrow> fst (fetch_news_bing e w name n) = Inr []"
  by (simp add: fetch_news_bing_def Let_def)

lemma serpapi_error:
  "serpapi_body (next_response w) n = Inl err \<Longrightarrow> fst (fetch_news_serpapi e w name n) = Inr []"
  using requests_get_fst [of "log_call (CallSerpapi n) w"]
  by (auto simp: fetch_news_serpapi_def Let_def next_response_log_call
           split: prod.splits sum.splits)

lemma bing_error:
  "bing_body (next_response w) n = Inl err \<Longrightarrow> fst (fetch_news_bing e w name n) = Inr []"
  using requests_get_fst [of "log_call (CallBing n) w"]
  by (auto simp: fetch_news_bing_def Let_def next_response_log_call
           split: prod.splits sum.splits)

lemma gdelt_error:
  "gdelt_body e (next_response w) n = Inl err \<Longrightarrow> fst (fetch_news_gdelt e w name n) = Inr []"
  using requests_get_fst [of "log_call (CallGdelt n) w"]
  by (auto simp: fetch_news_gdelt_def Let_def next_response_log_call
           split: prod.splits sum.splits)

lemma body_raises_on_failed_response:
  "response_json r = Inl err \<Longrightarrow>
   serpapi_body r n = Inl err \<and> bing_body r n = Inl err \<and> gdelt_body e r n = Inl err"
  by (simp add: serpapi_body_def bing_body_def gdelt_body_def bind_result_def)

lemma fetch_trials_raises:
  "response_json (next_response w) = Inl err \<Longrightarrow> fst (fetch_trials w q m) = Inl err"
  using requests_get_fst [of w]
  by (auto simp: fetch_trials_def Let_def bind_result_def split: prod.splits sum.splits)

lemma fetch_trials_returns:
  "response_json (next_response w) = Inr data \<Longrightarrow>
   \<exists>d. fst (fetch_trials w q m) = Inr (JDict d) \<and> map_of d ''studies'' \<noteq> None"
  using requests_get_fst [of w]
  by (auto simp: fetch_trials_def Let_def bind_result_def
           split: prod.splits sum.splits json.splits)

text \<open>
  C1, as the code has it. The three news adapters return a list on every input.
  They return the empty list when their key is missing (SerpApi, Bing) and
  whenever the \<^verbatim>\<open>try\<close> block raises on the response the request gets; a failed
  connection, an error status and a body that is not JSON make it raise, and so
  does a decoded body of the wrong shape. \<^verbatim>\<open>fetch_trials\<close> is different: a failed
  connection, an error status and a body that is not JSON leave it as the
  exception, and on every decoded body it returns a dictionary with the key
  \<^verbatim>\<open>studies\<close>.
\<close>

theorem adapters_on_errors:
  "(\<exists>xs. fst (fetch_news_serpapi e w name n) = Inr xs)
   \<and> (\<exists>xs. fst (fetch_news_bing e w name n) = Inr xs)
   \<and> (\<exists>xs. fst (fetch_news_gdelt e w name n) = Inr xs)
   \<and> (\<not> key_set (SERPAPI_KEY e) \<longrightarrow> fst (fetch_news_serpapi e w name n) = Inr [])
   \<and> (\<not> key_set (BING_KEY e) \<longrightarrow> fst (fetch_news_bing e w name n) = Inr [])
   \<and> (response_json (next_response w) = Inl err \<longrightarrow>
        serpapi_body (next_response w) n = Inl err
        \<and> bing_body (next_response w) n = Inl err
        \<and> gdelt_body e (next_response w) n = Inl err)
   \<and> (serpapi_body (next_response w) n = Inl err \<longrightarrow>
        fst (fetch_news_serpapi e w name n) = Inr [])
   \<and> (bing_body (next_response w) n = Inl err \<longrightarrow> fst (fetch_news_bing e w name n) = Inr [])
   \<and> (gdelt_body e (next_response w) n = Inl err \<longrightarrow>
        fst (fetch_news_gdelt e w name n) = Inr [])
   \<and> (response_json (next_response w) = Inl err \<longrightarrow> fst (fetch_trials w q m) = Inl err)
   \<and> (response_json (next_response w) = Inr data \<longrightarrow>
        (\<exists>d. fst (fetch_trials w q m) = Inr (JDict d) \<and> map_of d ''studies'' \<noteq> None))"
  using serpapi_total [of e w name n] bing_total [of e w name n] gdelt_total [of e w name n]
    serpapi_no_key [of e w name n] bing_no_key [of e w name n]
    body_raises_on_failed_response [of "next_response w" err n e]
    serpapi_error [of w n err e name] bing_error [of w n err e name]
    gdelt_error [of e w n err name]
    fetch_trials_raises [of w err q m] fetch_trials_returns [of w data q m]
  by blast

theorem adapters_on_errors_witness:
  "fst (fetch_news_serpapi env0 world0 ''Acme'' 5) = Inr []
   \<and> fst (fetch_news_bing env0 world0 ''Acme'' 5) = Inr []
   \<and> fst (fetch_news_gdelt env0 world0 ''Acme'' 5) = Inr []
   \<and> fst (fetch_trials world0 (JStr ''Acme'') 5) = Inl ConnectionError"
proof -
  have failed: "response_json (next_response world0) = Inl ConnectionError"
    by (simp add: next_response_def world0_def response_json_def)
  show ?thesis
    using failed
      adapters_on_errors [of env0 world0 "''Acme''" 5 ConnectionError "JStr ''Acme''" 5 JNull]
    by blast
qed

text \<open>
  An error status from the registry: \<^verbatim>\<open>raise_for_status\<close> raises and nothing in
  \<^verbatim>\<open>fetch_trials\<close> catches it.
\<close>

theorem fetch_trials_raises_counterexample:
  "fst (fetch_trials (world0\<lparr>pending := [HttpStatusError]\<rparr>) (JStr ''Acme'') 5) = Inl HTTPError"
  by (simp add: fetch_trials_def requests_get_def world0_def response_json_def bind_result_def)

subsection \<open>The archive of fetched pages\<close>

lemma fetch_attempts_frame:
  "k \<noteq> archive_file e u \<Longrightarrow> archive (snd (fetch_attempts e n u m w)) k = archive w k"
  by (induction n arbitrary: w)
     (auto simp: requests_get_def split: list.splits response.splits prod.splits)

lemma fetch_url_frame:
  "k \<noteq> archive_file e u \<Longrightarrow> archive (snd (fetch_url e w (JStr u) c m)) k = archive w k"
  using fetch_attempts_frame [of k e u "nat m" m "log_call (CallFetchUrl (JStr u)) w"]
  by (auto simp: fetch_url_def Let_def log_call_def split: option.splits prod.splits)

lemma fetch_url_cached:
  "archive w (archive_file e u) = Some body \<Longrightarrow>
   fetch_url e w (JStr u) True m =
     (Inr \<lparr>raw_text = Some (universal_newlines body),
           archive_path = Some (''archive/'' @ archive_file e u),
           fetched_at = isoformat e (clock w), from_cache = True, error = None\<rparr>,
      log_call (CallFetchUrl (JStr u)) w)"
  by (simp add: fetch_url_def Let_def log_call_def)

text \<open>
  C9, as the code has it. A call of \<^verbatim>\<open>fetch_url\<close> for a URL changes no archive
  entry other than the one named by the digest of the URL. With \<^verbatim>\<open>use_cache\<close>
  true (the default, which every caller in the repository uses), a call for a URL
  whose entry exists leaves the archive and the network untouched (only the call
  is logged), and so does every later such call: the entry is written at most
  once and never overwritten.
\<close>

theorem fetch_url_keeps_archive:
  "(k \<noteq> archive_file e u \<longrightarrow>
      archive (snd (fetch_url e w (JStr u) use_cache n)) k = archive w k)
   \<and> (archive w (archive_file e u) = Some body \<longrightarrow>
        snd (fetch_url e w (JStr u) True n) = log_call (CallFetchUrl (JStr u)) w
        \<and> archive (snd (fetch_url e w (JStr u) True n)) = archive w
        \<and> pending (snd (fetch_url e w (JStr u) True n)) = pending w
        \<and> archive (snd (fetch_url e (snd (fetch_url e w (JStr u) True n)) (JStr u) True m))
            = archive w)"
proof -
  have frame: "k \<noteq> archive_file e u \<longrightarrow>
      archive (snd (fetch_url e w (JStr u) use_cache n)) k = archive w k"
    using fetch_url_frame [of k e u w use_cache n] by blast
  have kept: "archive w (archive_file e u) = Some body \<longrightarrow>
        snd (fetch_url e w (JStr u) True n) = log_call (CallFetchUrl (JStr u)) w
        \<and> archive (snd (fetch_url e w (JStr u) True n)) = archive w
        \<and> pending (snd (fetch_url e w (JStr u) True n)) = pending w
        \<and> archive (snd (fetch_url e (snd (fetch_url e w (JStr u) True n)) (JStr u) True m))
            = archive w"
  proof
    assume entry: "archive w (archive_file e u) = Some body"
    let ?w1 = "log_call (CallFetchUrl (JStr u)) w"
    have first: "snd (fetch_url e w (JStr u) True n) = ?w1"
      using fetch_url_cached [OF entry, of n] by simp
    have entry1: "archive ?w1 (archive_file e u) = Some body"
      using entry by (simp add: log_call_def)
    have second: "snd (fetch_url e ?w1 (JStr u) True m) = log_call (CallFetchUrl (JStr u)) ?w1"
      using fetch_url_cached [OF entry1, of m] by simp
    show "snd (fetch_url e w (JStr u) True n) = log_call (CallFetchUrl (JStr u)) w
        \<and> archive (snd (fetch_url e w (JStr u) True n)) = archive w
        \<and> pending (snd (fetch_url e w (JStr u) True n)) = pending w
        \<and> archive (snd (fetch_url e (snd (fetch_url e w (JStr u) True n)) (JStr u) True m))
            = archive w"
      unfolding first second by (simp add: log_call_def)
  qed
  from frame kept show ?thesis by blast
qed

theorem fetch_url_keeps_archive_witness:
  "archive (snd (fetch_url env0
      (world0\<lparr>archive := [''u.html'' \<mapsto> ''old''], pending := [Responded ''new'' None]\<rparr>)
      (JStr ''u'') True 3)) = [''u.html'' \<mapsto> ''old'']
   \<and> pending (snd (fetch_url env0
      (world0\<lparr>archive := [''u.html'' \<mapsto> ''old''], pending := [Responded ''new'' None]\<rparr>)
      (JStr ''u'') True 3)) = [Responded ''new'' None]"
proof -
  let ?w = "world0\<lparr>archive := [''u.html'' \<mapsto> ''old''], pending := [Responded ''new'' None]\<rparr>"
  have entry: "archive ?w (archive_file env0 ''u'') = Some ''old''"
    by (simp add: archive_file_def env0_def)
  from entry fetch_url_keeps_archive [of "''x''" env0 "''u''" ?w True 3 "''old''" 3]
  have "archive (snd (fetch_url env0 ?w (JStr ''u'') True 3)) = archive ?w
        \<and> pending (snd (fetch_url env0 ?w (JStr ''u'') True 3)) = pending ?w"
    by blast
  then show ?thesis by simp
qed

text \<open>
  With \<^verbatim>\<open>use_cache=False\<close> the existing entry is not looked at: the page is
  requested, and \<^verbatim>\<open>write_text\<close> replaces the archived text.
\<close>

theorem fetch_url_overwrites_counterexample:
  "archive (snd (fetch_url env0
      (world0\<lparr>archive := [''u.html'' \<mapsto> ''old''], pending := [Responded ''new'' None]\<rparr>)
      (JStr ''u'') False 3)) ''u.html'' = Some ''new''"
  by (simp add: fetch_url_def Let_def env0_def world0_def log_call_def archive_file_def
        requests_get_def numeral_3_eq_3)

subsection \<open>Filings\<close>

text \<open>
  C7. When the ticker and the CIK are both falsy (\<^verbatim>\<open>None\<close>, as the pipeline
  passes them, or empty), \<^verbatim>\<open>fetch_edgar_filings\<close> returns the empty list and asks
  for no download; and \<^verbatim>\<open>normalize_financials\<close> with \<^verbatim>\<open>is_public=False\<close> returns
  exactly \<^verbatim>\<open>{public: False, filings: [], provenance: []}\<close>, whatever filings it is
  given.
\<close>

theorem edgar_without_identifiers:
  "(\<not> truthy ticker \<and> \<not> truthy cik \<longrightarrow> fetch_edgar_filings fs ticker cik count = ([], []))
   \<and> normalize_financials fs fl False = Inr \<lparr>public = False, filings = [], provenance = []\<rparr>"
  by (simp add: fetch_edgar_filings_def normalize_financials_def)

theorem edgar_without_identifiers_witness:
  "fetch_edgar_filings edgar0 JNull JNull 2 = ([], [])
   \<and> normalize_financials edgar0 [] False
       = Inr \<lparr>public = False, filings = [], provenance = []\<rparr>"
  using edgar_without_identifiers [of JNull JNull edgar0 2 "[]"] by simp

subsection \<open>The tier chain and the enrichment pass\<close>

lemma bind_io_Inl [simp]: "bind_io (Inl err, w) f = (Inl err, w)"
  by (simp add: bind_io_def)

lemma bind_io_Inr [simp]: "bind_io (Inr x, w) f = f x w"
  by (simp add: bind_io_def)

lemma cons_result_Inr [simp]: "cons_result x (Inr xs, w) = (Inr (x # xs), w)"
  by (simp add: cons_result_def)

lemma cons_result_Inl [simp]: "cons_result x (Inl err, w) = (Inl err, w)"
  by (simp add: cons_result_def)

lemma map_result_all:
  "map_result f xs = Inr ys \<Longrightarrow> (\<And>x y. f x = Inr y \<Longrightarrow> P y) \<Longrightarrow> list_all P ys"
  by (induction xs arbitrary: ys) (auto split: sum.splits)

lemma map_result_length: "map_result f xs = Inr ys \<Longrightarrow> length ys = length xs"
  by (induction xs arbitrary: ys) (auto split: sum.splits)

lemma serpapi_article_keys: "serpapi_article item = Inr a \<Longrightarrow> tier_article a"
  by (cases item) (auto simp: serpapi_article_def tier_article_def tier_keys_def)

lemma bing_article_keys: "bing_article item = Inr a \<Longrightarrow> tier_article a"
  by (cases item; cases "bing_source (dict_get (case item of JDict d \<Rightarrow> d) ''provider'')")
     (auto simp: bing_article_def tier_article_def tier_keys_def bind_result_def)

lemma gdelt_article_keys: "gdelt_article item = Inr a \<Longrightarrow> tier_article a"
  by (cases item) (auto simp: gdelt_article_def tier_article_def tier_keys_def)

lemma bind_result_Inr_iff: "bind_result m f = Inr y \<longleftrightarrow> (\<exists>x. m = Inr x \<and> f x = Inr y)"
  by (cases m) (simp_all add: bind_result_def)

lemma gdelt_date_keys: "tier_article a \<Longrightarrow> tier_article (gdelt_date e a)"
proof (cases a)
  case (JDict d)
  assume t: "tier_article a"
  with JDict have k: "map fst d = tier_keys" by (simp add: tier_article_def)
  have "''published'' \<in> set (map fst d)" unfolding k tier_keys_def by simp
  then have upd: "map fst (dict_set d ''published'' v) = tier_keys" for v
    using k by (simp add: dict_set_def update_keys)
  show ?thesis
    using JDict k upd
    by (simp add: gdelt_date_def tier_article_def split: json.splits option.splits)
qed (simp_all add: tier_article_def)

lemma serpapi_body_keys: "serpapi_body r n = Inr arts \<Longrightarrow> list_all tier_article arts"
  unfolding serpapi_body_def bind_result_Inr_iff
  using map_result_all [of serpapi_article _ arts tier_article] serpapi_article_keys
  by blast

lemma bing_body_keys: "bing_body r n = Inr arts \<Longrightarrow> list_all tier_article arts"
  unfolding bing_body_def bind_result_Inr_iff
  using map_result_all [of bing_article _ arts tier_article] bing_article_keys
  by blast

lemma gdelt_body_keys:
  assumes "gdelt_body e r n = Inr arts"
  shows "list_all tier_article arts"
proof -
  from assms obtain sliced raw where m: "map_result gdelt_article sliced = Inr raw"
    and a: "arts = map (gdelt_date e) raw"
    unfolding gdelt_body_def bind_result_Inr_iff by auto
  from m have "list_all tier_article raw"
    by (rule map_result_all) (rule gdelt_article_keys)
  with a show ?thesis by (simp add: list_all_iff gdelt_date_keys)
qed

lemma requests_get_store:
  "requests_get w = (r, w') \<Longrightarrow> same_store w w' \<and> trace w' = trace w"
  by (auto simp: requests_get_def same_store_def split: list.splits)

lemma serpapi_shape:
  "\<exists>arts w'. fetch_news_serpapi e w name n = (Inr arts, w') \<and> list_all tier_article arts
     \<and> trace w' = trace w @ [CallSerpapi n] \<and> same_store w w'"
proof (cases "key_set (SERPAPI_KEY e)")
  case False
  then show ?thesis
    by (simp add: fetch_news_serpapi_def Let_def log_call_def same_store_def)
next
  case True
  obtain r w' where g: "requests_get (log_call (CallSerpapi n) w) = (r, w')"
    by (cases "requests_get (log_call (CallSerpapi n) w)")
  from requests_get_store [OF g]
  have st: "same_store w w'" and tr: "trace w' = trace w @ [CallSerpapi n]"
    by (simp_all add: same_store_def log_call_def)
  show ?thesis
  proof (cases "serpapi_body r n")
    case (Inl err)
    with True g st tr show ?thesis by (simp add: fetch_news_serpapi_def Let_def)
  next
    case (Inr arts)
    with True g st tr serpapi_body_keys [OF Inr] show ?thesis
      by (simp add: fetch_news_serpapi_def Let_def)
  qed
qed

lemma bing_shape:
  "\<exists>arts w'. fetch_news_bing e w name n = (Inr arts, w') \<and> list_all tier_article arts
     \<and> trace w' = trace w @ [CallBing n] \<and> same_store w w'"
proof (cases "key_set (BING_KEY e)")
  case False
  then show ?thesis
    by (simp add: fetch_news_bing_def Let_def log_call_def same_store_def)
next
  case True
  obtain r w' where g: "requests_get (log_call (CallBing n) w) = (r, w')"
    by (cases "requests_get (log_call (CallBing n) w)")
  from requests_get_store [OF g]
  have st: "same_store w w'" and tr: "trace w' = trace w @ [CallBing n]"
    by (simp_all add: same_store_def log_call_def)
  show ?thesis
  proof (cases "bing_body r n")
    case (Inl err)
    with True g st tr show ?thesis by (simp add: fetch_news_bing_def Let_def)
  next
    case (Inr arts)
    with True g st tr bing_body_keys [OF Inr] show ?thesis
      by (simp add: fetch_news_bing_def Let_def)
  qed
qed

lemma gdelt_shape:
  "\<exists>arts w'. fetch_news_gdelt e w name n = (Inr arts, w') \<and> list_all tier_article arts
     \<and> trace w' = trace w @ [CallGdelt n] \<and> same_store w w'"
proof -
  obtain r w' where g: "requests_get (log_call (CallGdelt n) w) = (r, w')"
    by (cases "requests_get (log_call (CallGdelt n) w)")
  from requests_get_store [OF g]
  have st: "same_store w w'" and tr: "trace w' = trace w @ [CallGdelt n]"
    by (simp_all add: same_store_def log_call_def)
  show ?thesis
  proof (cases "gdelt_body e r n")
    case (Inl err)
    with g st tr show ?thesis by (simp add: fetch_news_gdelt_def Let_def)
  next
    case (Inr arts)
    with g st tr gdelt_body_keys [OF Inr] show ?thesis
      by (simp add: fetch_news_gdelt_def Let_def)
  qed
qed

lemma tier_article_no_enrichment: "map fst d = tier_keys \<Longrightarrow> \<not> needs_enrichment d"
proof -
  assume k: "map fst d = tier_keys"
  have "''source_url'' \<notin> set (map fst d)" unfolding k tier_keys_def by simp
  then have "map_of d ''source_url'' = None" by (simp add: map_of_eq_None_iff)
  then show ?thesis by (simp add: needs_enrichment_def dict_get_def)
qed

lemma enrich_loop_tier_articles:
  "list_all tier_article arts \<Longrightarrow> enrich_loop e mf arts c w = (Inr arts, w)"
proof (induction arts)
  case Nil
  then show ?case by simp
next
  case (Cons a arts)
  then obtain d where a: "a = JDict d" and k: "map fst d = tier_keys"
    by (cases a) (auto simp: tier_article_def)
  from Cons have rest: "enrich_loop e mf arts c w = (Inr arts, w)" by simp
  show ?case using a rest tier_article_no_enrichment [OF k] by simp
qed

lemma same_store_trans: "same_store a b \<Longrightarrow> same_store b c \<Longrightarrow> same_store a c"
  by (simp add: same_store_def)

lemma tier_chain_calls:
  "\<exists>a1 w1. fetch_news_serpapi e w name n = (Inr a1, w1) \<and>
     (if int (length a1) < n
      then \<exists>b w2. fetch_news_bing e w1 name (n - int (length a1)) = (Inr b, w2) \<and>
            (if int (length (a1 @ b)) < n
             then \<exists>c w3. fetch_news_gdelt e w2 name (n - int (length (a1 @ b))) = (Inr c, w3)
                   \<and> tier_chain e w name n = (Inr (a1 @ b @ c), w3)
                   \<and> trace w3 = trace w @ [CallSerpapi n, CallBing (n - int (length a1)),
                                              CallGdelt (n - int (length (a1 @ b)))]
             else tier_chain e w name n = (Inr (a1 @ b), w2)
                   \<and> trace w2 = trace w @ [CallSerpapi n, CallBing (n - int (length a1))])
      else tier_chain e w name n = (Inr a1, w1) \<and> trace w1 = trace w @ [CallSerpapi n])"
proof -
  obtain a1 w1 where s1: "fetch_news_serpapi e w name n = (Inr a1, w1)"
    and t1: "trace w1 = trace w @ [CallSerpapi n]"
    using serpapi_shape [of e w name n] by blast
  show ?thesis
  proof (cases "int (length a1) < n")
    case False
    with s1 t1 show ?thesis by (simp add: tier_chain_def)
  next
    case lt1: True
    obtain b w2 where s2: "fetch_news_bing e w1 name (n - int (length a1)) = (Inr b, w2)"
      and t2: "trace w2 = trace w1 @ [CallBing (n - int (length a1))]"
      using bing_shape [of e w1 name "n - int (length a1)"] by blast
    show ?thesis
    proof (cases "int (length (a1 @ b)) < n")
      case False
      with s1 t1 s2 t2 lt1 show ?thesis by (simp add: tier_chain_def)
    next
      case lt2: True
      obtain c w3 where s3: "fetch_news_gdelt e w2 name (n - int (length (a1 @ b))) = (Inr c, w3)"
        and t3: "trace w3 = trace w2 @ [CallGdelt (n - int (length (a1 @ b)))]"
        using gdelt_shape [of e w2 name "n - int (length (a1 @ b))"] by blast
      from s1 t1 s2 t2 s3 t3 lt1 lt2 show ?thesis by (simp add: tier_chain_def)
    qed
  qed
qed

lemma tier_chain_shape:
  "\<exists>arts w'. tier_chain e w name n = (Inr arts, w') \<and> list_all tier_article arts
     \<and> same_store w w'"
proof -
  obtain a1 w1 where s1: "fetch_news_serpapi e w name n = (Inr a1, w1)"
    and k1: "list_all tier_article a1" and st1: "same_store w w1"
    using serpapi_shape [of e w name n] by blast
  show ?thesis
  proof (cases "int (length a1) < n")
    case False
    with s1 k1 st1 show ?thesis by (simp add: tier_chain_def)
  next
    case lt1: True
    obtain b w2 where s2: "fetch_news_bing e w1 name (n - int (length a1)) = (Inr b, w2)"
      and k2: "list_all tier_article b" and st2: "same_store w1 w2"
      using bing_shape [of e w1 name "n - int (length a1)"] by blast
    note st12 = same_store_trans [OF st1 st2]
    show ?thesis
    proof (cases "int (length (a1 @ b)) < n")
      case False
      with s1 s2 k1 k2 st12 lt1 show ?thesis by (simp add: tier_chain_def)
    next
      case lt2: True
      obtain c w3 where s3: "fetch_news_gdelt e w2 name (n - int (length (a1 @ b))) = (Inr c, w3)"
        and k3: "list_all tier_article c" and st3: "same_store w2 w3"
        using gdelt_shape [of e w2 name "n - int (length (a1 @ b))"] by blast
      note st123 = same_store_trans [OF st12 st3]
      from s1 s2 s3 k1 k2 k3 st123 lt1 lt2 show ?thesis by (simp add: tier_chain_def)
    qed
  qed
qed

lemma normalized_items_total:
  "list_all tier_article xs \<Longrightarrow>
   \<exists>norm. map_result (normalized_item e w) xs = Inr norm \<and> length norm = length xs"
proof (induction xs)
  case Nil
  then show ?case by simp
next
  case (Cons a xs)
  then obtain d where a: "a = JDict d" by (cases a) (auto simp: tier_article_def)
  then obtain y where y: "normalized_item e w a = Inr y" by (simp add: normalized_item_def)
  from Cons obtain norm where "map_result (normalized_item e w) xs = Inr norm"
    and "length norm = length xs" by auto
  with y show ?case by simp
qed

lemma py_slice_to_all: "list_all P xs \<Longrightarrow> list_all P (py_slice_to xs n)"
  by (auto simp: py_slice_to_def list_all_iff dest: in_set_takeD)

lemma py_slice_to_length: "0 \<le> n \<Longrightarrow> int (length (py_slice_to xs n)) \<le> n"
  by (simp add: py_slice_to_def)

lemma fetch_company_news_multi_miss:
  assumes miss: "\<not> (uc \<and> truthy (load_cache w name 24))"
    and chain: "tier_chain e w name n = (Inr arts, w1)"
    and keys: "list_all tier_article arts"
  shows "\<exists>norm. map_result (normalized_item e w1) (py_slice_to arts n) = Inr norm
           \<and> length norm = length (py_slice_to arts n)
           \<and> fetch_company_news_multi e w name n uc =
               (if uc then bind_io (save_cache w1 name (JList norm)) (\<lambda>_ w4. (Inr (JList norm), w4))
                else (Inr (JList norm), w1))"
proof -
  from normalized_items_total [OF py_slice_to_all [OF keys], of e w1 n]
  obtain norm where n1: "map_result (normalized_item e w1) (py_slice_to arts n) = Inr norm"
    and n2: "length norm = length (py_slice_to arts n)" by blast
  have en: "enrich_with_html_fallback e w1 arts 3 = (Inr arts, w1)"
    using enrich_loop_tier_articles [OF keys] by (simp add: enrich_with_html_fallback_def)
  have "fetch_company_news_multi e w name n uc =
          (if uc then bind_io (save_cache w1 name (JList norm)) (\<lambda>_ w4. (Inr (JList norm), w4))
           else (Inr (JList norm), w1))"
    using miss chain en n1 by (auto simp: fetch_company_news_multi_def)
  with n1 n2 show ?thesis by blast
qed

lemma fetch_company_news_multi_miss_result:
  assumes miss: "\<not> (uc \<and> truthy (load_cache w name 24))"
  shows "\<exists>arts w1 norm. tier_chain e w name n = (Inr arts, w1) \<and> same_store w w1
           \<and> length norm = length (py_slice_to arts n)
           \<and> fetch_company_news_multi e w name n uc =
               (if uc then
                  (if cache_writable w
                   then (Inr (JList norm),
                         w1\<lparr>news_cache := (news_cache w1)(cache_file_name name \<mapsto>
                                             (clock w1, Decoded (JList norm)))\<rparr>)
                   else (Inl OSError, w1))
                else (Inr (JList norm), w1))"
proof -
  obtain arts w1 where chain: "tier_chain e w name n = (Inr arts, w1)"
    and keys: "list_all tier_article arts" and st: "same_store w w1"
    using tier_chain_shape [of e w name n] by blast
  from fetch_company_news_multi_miss [OF miss chain keys]
  obtain norm where len: "length norm = length (py_slice_to arts n)"
    and res: "fetch_company_news_multi e w name n uc =
               (if uc then bind_io (save_cache w1 name (JList norm)) (\<lambda>_ w4. (Inr (JList norm), w4))
                else (Inr (JList norm), w1))" by blast
  have wr: "cache_writable w1 = cache_writable w" using st by (simp add: same_store_def)
  have "fetch_company_news_multi e w name n uc =
               (if uc then
                  (if cache_writable w
                   then (Inr (JList norm),
                         w1\<lparr>news_cache := (news_cache w1)(cache_file_name name \<mapsto>
                                             (clock w1, Decoded (JList norm)))\<rparr>)
                   else (Inl OSError, w1))
                else (Inr (JList norm), w1))"
    unfolding res using wr by (simp add: save_cache_def)
  with chain st len show ?thesis by blast
qed

lemma fetch_company_news_multi_miss_trace:
  assumes miss: "\<not> (uc \<and> truthy (load_cache w name 24))"
  shows "trace (snd (fetch_company_news_multi e w name n uc)) = trace (snd (tier_chain e w name n))"
  using fetch_company_news_multi_miss_result [OF miss, of e n] by auto

lemma fetch_company_news_multi_miss_bound:
  assumes miss: "\<not> (uc \<and> truthy (load_cache w name 24))" and nn: "0 \<le> n"
    and res: "fst (fetch_company_news_multi e w name n uc) = Inr v"
  shows "\<exists>norm. v = JList norm \<and> int (length norm) \<le> n"
proof -
  from fetch_company_news_multi_miss_result [OF miss, of e n]
  obtain arts :: "json list" and w1 norm
    where len: "length norm = length (py_slice_to arts n)"
    and r: "fetch_company_news_multi e w name n uc =
               (if uc then
                  (if cache_writable w
                   then (Inr (JList norm),
                         w1\<lparr>news_cache := (news_cache w1)(cache_file_name name \<mapsto>
                                             (clock w1, Decoded (JList norm)))\<rparr>)
                   else (Inl OSError, w1))
                else (Inr (JList norm), w1))" by blast
  from r res have "v = JList norm" by (auto split: if_splits)
  moreover have "int (length norm) \<le> n" using len py_slice_to_length [OF nn, of arts] by simp
  ultimately show ?thesis by blast
qed

lemma tier_chain_trace_prefix:
  "\<exists>rest. trace (snd (tier_chain e w name n)) = trace w @ CallSerpapi n # rest"
  using tier_chain_calls [of e w name n] by (auto split: if_splits)

lemma load_cache_hit:
  assumes "news_cache w (cache_file_name name) = Some (t0, Decoded payload)"
    and "clock w - t0 \<le> ttl_microseconds ttl"
  shows "load_cache w name ttl = payload"
  using assms by (simp add: load_cache_def)

subsection \<open>The enrichment pass inside the aggregator\<close>

lemma serp_chain:
  "tier_chain env0 serp_world ''Acme'' 1 =
     (Inr [serp_article], serp_world\<lparr>pending := [], trace := [CallSerpapi 1]\<rparr>)"
  by (simp add: tier_chain_def fetch_news_serpapi_def Let_def log_call_def requests_get_def
        serpapi_body_def bind_result_def response_json_def py_get_def dict_get_def py_or_def
        py_slice_iter_def py_slice_to_def serpapi_article_def env0_def world0_def key_set_def
        serp_world_def serp_article_def)

text \<open>
  C10. The tier chain of \<^verbatim>\<open>fetch_company_news_multi\<close> always returns a list of
  articles, each a dictionary with exactly the keys \<^verbatim>\<open>title\<close>, \<^verbatim>\<open>url\<close>,
  \<^verbatim>\<open>source\<close>, \<^verbatim>\<open>snippet\<close>, \<^verbatim>\<open>published\<close> and \<^verbatim>\<open>raw\<close>. The enrichment pass tests
  \<^verbatim>\<open>source_url\<close>, which no such article has, so run on that list (with any
  budget) it returns the list as it is and leaves the world as it was: no page is
  fetched, nothing is logged.
\<close>

theorem enrichment_identity_on_tier_output:
  "\<exists>arts w1. tier_chain e w name n = (Inr arts, w1) \<and> list_all tier_article arts
     \<and> enrich_with_html_fallback e w1 arts mf = (Inr arts, w1)"
proof -
  obtain arts w1 where chain: "tier_chain e w name n = (Inr arts, w1)"
    and keys: "list_all tier_article arts"
    using tier_chain_shape [of e w name n] by blast
  have "enrich_with_html_fallback e w1 arts mf = (Inr arts, w1)"
    using enrich_loop_tier_articles [OF keys] by (simp add: enrich_with_html_fallback_def)
  with chain keys show ?thesis by blast
qed

theorem enrichment_identity_on_tier_output_witness:
  "tier_chain env0 serp_world ''Acme'' 1 =
     (Inr [serp_article], serp_world\<lparr>pending := [], trace := [CallSerpapi 1]\<rparr>)
   \<and> \<not> truthy (dict_get (case serp_article of JDict d \<Rightarrow> d) ''headline'')
   \<and> enrich_with_html_fallback env0 (serp_world\<lparr>pending := [], trace := [CallSerpapi 1]\<rparr>)
        [serp_article] 3
      = (Inr [serp_article], serp_world\<lparr>pending := [], trace := [CallSerpapi 1]\<rparr>)"
proof -
  from enrichment_identity_on_tier_output [of env0 serp_world "''Acme''" 1 3]
  obtain arts w1 where "tier_chain env0 serp_world ''Acme'' 1 = (Inr arts, w1)"
    and "enrich_with_html_fallback env0 w1 arts 3 = (Inr arts, w1)" by blast
  then show ?thesis
    using serp_chain by (simp add: serp_article_def dict_get_def)
qed

subsection \<open>Quotas of the fallback chain\<close>

lemma quota_world_chain:
  "trace (snd (tier_chain env0 quota_world ''Acme'' 2))
     = [CallSerpapi 2, CallBing 1, CallGdelt 1]"
  by (simp add: tier_chain_def fetch_news_serpapi_def fetch_news_bing_def fetch_news_gdelt_def
        Let_def log_call_def requests_get_def serpapi_body_def bing_body_def gdelt_body_def
        bind_result_def response_json_def py_get_def py_get_default_def dict_get_def
        dict_get_default_def py_or_def py_slice_iter_def py_slice_to_def serpapi_article_def
        gdelt_article_def gdelt_date_def env0_def world0_def key_set_def quota_world_def
        bind_io_def)

lemma quota_world_miss: "\<not> (True \<and> truthy (load_cache quota_world ''Acme'' 24))"
  by (simp add: load_cache_def quota_world_def world0_def)

text \<open>
  C2. On a cache miss (or with the cache switched off) SerpApi is called with
  \<open>max_results\<close>. If it returns fewer than \<open>max_results\<close> articles, Bing is called
  with the number still missing; if the two together are still fewer, GDELT is
  called with what is missing then; otherwise the later tiers are not called. The
  calls logged by the whole of \<^verbatim>\<open>fetch_company_news_multi\<close> are those of the chain.
  For a quota that is not negative, the list returned has at most \<open>max_results\<close>
  items.
\<close>

theorem fallback_quota:
  "(\<exists>a1 w1. fetch_news_serpapi e w name n = (Inr a1, w1) \<and>
     (if int (length a1) < n
      then \<exists>b w2. fetch_news_bing e w1 name (n - int (length a1)) = (Inr b, w2) \<and>
            (if int (length (a1 @ b)) < n
             then \<exists>c w3. fetch_news_gdelt e w2 name (n - int (length (a1 @ b))) = (Inr c, w3)
                   \<and> tier_chain e w name n = (Inr (a1 @ b @ c), w3)
                   \<and> trace w3 = trace w @ [CallSerpapi n, CallBing (n - int (length a1)),
                                              CallGdelt (n - int (length (a1 @ b)))]
             else tier_chain e w name n = (Inr (a1 @ b), w2)
                   \<and> trace w2 = trace w @ [CallSerpapi n, CallBing (n - int (length a1))])
      else tier_chain e w name n = (Inr a1, w1) \<and> trace w1 = trace w @ [CallSerpapi n]))
   \<and> (\<not> (uc \<and> truthy (load_cache w name 24)) \<longrightarrow>
        trace (snd (fetch_company_news_multi e w name n uc))
          = trace (snd (tier_chain e w name n)))
   \<and> (\<not> (uc \<and> truthy (load_cache w name 24)) \<and> 0 \<le> n
        \<and> fst (fetch_company_news_multi e w name n uc) = Inr v \<longrightarrow>
        (\<exists>norm. v = JList norm \<and> int (length norm) \<le> n))"
  using tier_chain_calls [of e w name n]
    fetch_company_news_multi_miss_trace [of uc w name e n]
    fetch_company_news_multi_miss_bound [of uc w name n e v]
  by blast

theorem fallback_quota_witness:
  "trace (snd (fetch_company_news_multi env0 quota_world ''Acme'' 2 True))
     = [CallSerpapi 2, CallBing 1, CallGdelt 1]
   \<and> (\<exists>norm. fst (fetch_company_news_multi env0 quota_world ''Acme'' 2 True) = Inr (JList norm)
         \<and> int (length norm) \<le> 2)"
proof -
  have writable: "cache_writable quota_world" by (simp add: quota_world_def world0_def)
  from fetch_company_news_multi_miss_result [OF quota_world_miss, of env0 2] writable
  obtain norm where r: "fst (fetch_company_news_multi env0 quota_world ''Acme'' 2 True)
                          = Inr (JList norm)"
    by auto
  from fallback_quota [of env0 quota_world "''Acme''" 2 True "JList norm"]
    quota_world_miss quota_world_chain r
  show ?thesis by auto
qed

subsection \<open>The result cache\<close>

lemma save_cache_entry:
  "save_cache w name payload = (Inr u, w1) \<Longrightarrow>
   news_cache w1 (cache_file_name name) = Some (clock w, Decoded payload)"
  by (auto simp: save_cache_def split: if_splits)

text \<open>
  The round trip for a payload that is truthy (a list with at least one item).
  It is written for a company; the world may then change in any way that leaves
  the cache directory as it is, and the clock is at most 24 hours past the write.
  Then \<^verbatim>\<open>fetch_company_news_multi\<close> with \<^verbatim>\<open>use_cache=True\<close> returns the payload as
  stored and the world as it was: no adapter is called, nothing is requested,
  nothing is logged.
\<close>

theorem cache_round_trip:
  "truthy payload \<and> save_cache w name payload = (Inr u, w1)
     \<and> news_cache w2 = news_cache w1 \<and> clock w2 - clock w \<le> ttl_microseconds 24
   \<longrightarrow> fetch_company_news_multi e w2 name n True = (Inr payload, w2)"
proof (intro impI, elim conjE)
  assume t: "truthy payload" and s: "save_cache w name payload = (Inr u, w1)"
    and c: "news_cache w2 = news_cache w1" and fresh: "clock w2 - clock w \<le> ttl_microseconds 24"
  from save_cache_entry [OF s] c
  have "news_cache w2 (cache_file_name name) = Some (clock w, Decoded payload)" by simp
  from load_cache_hit [OF this fresh] have "load_cache w2 name 24 = payload" .
  with t show "fetch_company_news_multi e w2 name n True = (Inr payload, w2)"
    by (simp add: fetch_company_news_multi_def)
qed

theorem cache_round_trip_witness:
  "fetch_company_news_multi env0
     ((snd (save_cache world0 ''Acme'' (JList [stored_item])))\<lparr>clock := 1000\<rparr>) ''Acme'' 5 True
   = (Inr (JList [stored_item]),
      (snd (save_cache world0 ''Acme'' (JList [stored_item])))\<lparr>clock := 1000\<rparr>)"
proof -
  let ?w1 = "snd (save_cache world0 ''Acme'' (JList [stored_item]))"
  have a: "truthy (JList [stored_item])" by simp
  have b: "save_cache world0 ''Acme'' (JList [stored_item]) = (Inr (), ?w1)"
    by (simp add: save_cache_def world0_def)
  have c: "news_cache (?w1\<lparr>clock := 1000\<rparr>) = news_cache ?w1" by simp
  have d: "clock (?w1\<lparr>clock := 1000\<rparr>) - clock world0 \<le> ttl_microseconds 24"
    by (simp add: world0_def ttl_microseconds_def)
  from a b c d
    cache_round_trip [of "JList [stored_item]" world0 "''Acme''" "()" ?w1
      "?w1\<lparr>clock := 1000\<rparr>" env0 5]
  show ?thesis by blast
qed

text \<open>
  C3. The empty list is a payload the program stores: it is what
  \<^verbatim>\<open>fetch_company_news_multi\<close> writes when no tier has an article. Read back
  within the time to live it is falsy, the test \<^verbatim>\<open>if cached:\<close> fails as it does for
  \<^verbatim>\<open>None\<close>, and all three adapters are called again, where the claim says the stored
  payload is returned without calling any adapter.
\<close>

theorem cache_empty_payload_refetched:
  "fst (save_cache world0 ''Acme'' (JList [])) = Inr ()
   \<and> trace (snd (fetch_company_news_multi env0
              (snd (save_cache world0 ''Acme'' (JList []))) ''Acme'' 5 True))
       = [CallSerpapi 5, CallBing 5, CallGdelt 5]"
proof -
  let ?w1 = "snd (save_cache world0 ''Acme'' (JList []))"
  have miss: "\<not> (True \<and> truthy (load_cache ?w1 ''Acme'' 24))"
    by (simp add: load_cache_def save_cache_def world0_def)
  have chain: "trace (snd (tier_chain env0 ?w1 ''Acme'' 5))
                 = [CallSerpapi 5, CallBing 5, CallGdelt 5]"
    by (simp add: tier_chain_def fetch_news_serpapi_def fetch_news_bing_def
          fetch_news_gdelt_def Let_def log_call_def requests_get_def serpapi_body_def
          bing_body_def gdelt_body_def bind_result_def response_json_def env0_def world0_def
          key_set_def save_cache_def bind_io_def)
  from fetch_company_news_multi_miss_trace [OF miss, of env0 5] chain
  show ?thesis by (simp add: save_cache_def world0_def)
qed

text \<open>
  C8, as the code has it. \<^verbatim>\<open>_load_cache\<close> gives \<^verbatim>\<open>None\<close> when the file is
  missing, when it is older than the time to live, and when it cannot be read or
  decoded; after \<^verbatim>\<open>None\<close> the aggregator goes on to the adapters, SerpApi first.
  The write is not guarded: when the cache file cannot be written on that path,
  the \<^verbatim>\<open>OSError\<close> leaves \<^verbatim>\<open>_save_cache\<close> and \<^verbatim>\<open>fetch_company_news_multi\<close>, which
  returns no list to its caller.
\<close>

theorem cache_failures:
  "(news_cache w (cache_file_name name) = None \<longrightarrow> load_cache w name ttl = JNull)
   \<and> (news_cache w (cache_file_name name) = Some (mtime, content)
        \<and> clock w - mtime > ttl_microseconds ttl \<longrightarrow> load_cache w name ttl = JNull)
   \<and> (news_cache w (cache_file_name name) = Some (mtime, Unreadable) \<longrightarrow>
        load_cache w name ttl = JNull)
   \<and> (load_cache w name 24 = JNull \<longrightarrow>
        (\<exists>rest. trace (snd (fetch_company_news_multi e w name n True))
                  = trace w @ CallSerpapi n # rest))
   \<and> (\<not> truthy (load_cache w name 24) \<and> \<not> cache_writable w \<longrightarrow>
        fst (fetch_company_news_multi e w name n True) = Inl OSError)"
proof -
  have a: "news_cache w (cache_file_name name) = None \<longrightarrow> load_cache w name ttl = JNull"
    by (simp add: load_cache_def)
  have b: "news_cache w (cache_file_name name) = Some (mtime, content)
        \<and> clock w - mtime > ttl_microseconds ttl \<longrightarrow> load_cache w name ttl = JNull"
    by (simp add: load_cache_def)
  have c: "news_cache w (cache_file_name name) = Some (mtime, Unreadable) \<longrightarrow>
        load_cache w name ttl = JNull"
    by (simp add: load_cache_def)
  have d: "load_cache w name 24 = JNull \<longrightarrow>
        (\<exists>rest. trace (snd (fetch_company_news_multi e w name n True))
                  = trace w @ CallSerpapi n # rest)"
  proof
    assume "load_cache w name 24 = JNull"
    then have miss: "\<not> (True \<and> truthy (load_cache w name 24))" by simp
    from fetch_company_news_multi_miss_trace [OF miss, of e n]
      tier_chain_trace_prefix [of e w name n]
    show "\<exists>rest. trace (snd (fetch_company_news_multi e w name n True))
                  = trace w @ CallSerpapi n # rest" by simp
  qed
  have f: "\<not> truthy (load_cache w name 24) \<and> \<not> cache_writable w \<longrightarrow>
        fst (fetch_company_news_multi e w name n True) = Inl OSError"
  proof
    assume h: "\<not> truthy (load_cache w name 24) \<and> \<not> cache_writable w"
    then have miss: "\<not> (True \<and> truthy (load_cache w name 24))" by simp
    from fetch_company_news_multi_miss_result [OF miss, of e n] h
    show "fst (fetch_company_news_multi e w name n True) = Inl OSError" by auto
  qed
  from a b c d f show ?thesis by blast
qed

theorem cache_failures_witness:
  "load_cache world0 ''Acme'' 24 = JNull
   \<and> load_cache (world0\<lparr>news_cache := [''Acme.json'' \<mapsto> (0, Unreadable)]\<rparr>) ''Acme'' 24 = JNull
   \<and> load_cache (world0\<lparr>news_cache := [''Acme.json'' \<mapsto> (0, Decoded (JList [stored_item]))],
                        clock := 86400000001\<rparr>) ''Acme'' 24 = JNull
   \<and> fst (fetch_company_news_multi env0 (world0\<lparr>cache_writable := False\<rparr>) ''Acme'' 5 True)
       = Inl OSError"
proof -
  have name: "cache_file_name ''Acme'' = ''Acme.json''" by code_simp
  have a: "news_cache world0 (cache_file_name ''Acme'') = None" by (simp add: world0_def)
  have b: "news_cache (world0\<lparr>news_cache := [''Acme.json'' \<mapsto> (0, Unreadable)]\<rparr>)
             (cache_file_name ''Acme'') = Some (0, Unreadable)" by (simp add: name)
  have c: "news_cache (world0\<lparr>news_cache := [''Acme.json'' \<mapsto> (0, Decoded (JList [stored_item]))],
                        clock := 86400000001\<rparr>) (cache_file_name ''Acme'')
             = Some (0, Decoded (JList [stored_item]))
           \<and> clock (world0\<lparr>news_cache := [''Acme.json'' \<mapsto> (0, Decoded (JList [stored_item]))],
                        clock := 86400000001\<rparr>) - 0 > ttl_microseconds 24"
    by (simp add: name ttl_microseconds_def)
  have d: "\<not> truthy (load_cache (world0\<lparr>cache_writable := False\<rparr>) ''Acme'' 24)
           \<and> \<not> cache_writable (world0\<lparr>cache_writable := False\<rparr>)"
    by (simp add: load_cache_def world0_def)
  from a cache_failures [where w = world0 and name = "''Acme''" and ttl = 24]
  have r1: "load_cache world0 ''Acme'' 24 = JNull" by blast
  from b cache_failures [where w = "world0\<lparr>news_cache := [''Acme.json'' \<mapsto> (0, Unreadable)]\<rparr>"
      and name = "''Acme''" and mtime = 0 and ttl = 24]
  have r2: "load_cache (world0\<lparr>news_cache := [''Acme.json'' \<mapsto> (0, Unreadable)]\<rparr>) ''Acme'' 24
              = JNull" by blast
  from c cache_failures [where w = "world0\<lparr>news_cache :=
        [''Acme.json'' \<mapsto> (0, Decoded (JList [stored_item]))], clock := 86400000001\<rparr>"
      and name = "''Acme''" and mtime = 0 and content = "Decoded (JList [stored_item])"
      and ttl = 24]
  have r3: "load_cache (world0\<lparr>news_cache :=
        [''Acme.json'' \<mapsto> (0, Decoded (JList [stored_item]))], clock := 86400000001\<rparr>)
        ''Acme'' 24 = JNull" by blast
  from d cache_failures [where w = "world0\<lparr>cache_writable := False\<rparr>" and name = "''Acme''"
      and e = env0 and n = 5]
  have r4: "fst (fetch_company_news_multi env0 (world0\<lparr>cache_writable := False\<rparr>) ''Acme'' 5 True)
              = Inl OSError" by blast
  from r1 r2 r3 r4 show ?thesis by blast
qed

text \<open>
  The cache directory cannot be written, no tier answers: the call raises
  instead of returning the empty list it has built.
\<close>

theorem cache_write_failure_counterexample:
  "fst (fetch_company_news_multi env0
          (world0\<lparr>cache_writable := False,
                  pending := [Responded [] (Some (JDict [(''news_results'',
                     JList [JDict [(''title'', JStr ''Acme buys Bolt'')]])]))]\<rparr>)
          ''Acme'' 1 True) = Inl OSError"
proof -
  let ?w = "world0\<lparr>cache_writable := False,
                  pending := [Responded [] (Some (JDict [(''news_results'',
                     JList [JDict [(''title'', JStr ''Acme buys Bolt'')]])]))]\<rparr>"
  have miss: "\<not> (True \<and> truthy (load_cache ?w ''Acme'' 24))"
    by (simp add: load_cache_def world0_def)
  have "\<not> cache_writable ?w" by simp
  with fetch_company_news_multi_miss_result [OF miss, of env0 1]
  show ?thesis by auto
qed

subsection \<open>The enrichment budget\<close>

lemma dict_get_set: "dict_get (dict_set d k v) k' = (if k' = k then v else dict_get d k')"
  by (simp add: dict_get_def dict_set_def update_conv')

lemma delete_update_same_key: "AList.delete k (AList.update k v al) = AList.delete k al"
  by (induction al) auto

lemma delete_update_other_key:
  "k \<noteq> k' \<Longrightarrow> AList.delete k (AList.update k' v al) = AList.update k' v (AList.delete k al)"
  by (induction al) auto

lemma other_fields_enriched: "other_fields (enriched_article d meta) = other_fields d"
proof -
  have "other_fields (dict_set (dict_set d ''headline'' v1) ''summary'' v2) = other_fields d"
    for v1 v2
    by (simp add: other_fields_def dict_set_def delete_update_same_key
          delete_update_other_key [of "''summary''" "''headline''"])
  then show ?thesis by (simp add: enriched_article_def Let_def)
qed

lemma fills_only_missing_refl: "fills_only_missing a a"
  by (cases a) (simp_all add: fills_only_missing_def)

lemma fills_only_missing_enriched:
  "fills_only_missing (JDict d) (JDict (enriched_article d meta))"
  by (simp add: fills_only_missing_def other_fields_enriched)
     (simp add: enriched_article_def Let_def dict_get_set py_or_def)

lemma cons_result_Inr_iff:
  "cons_result x m = (Inr out, w') \<longleftrightarrow> (\<exists>out'. m = (Inr out', w') \<and> out = x # out')"
  by (cases m; cases "fst m") (auto simp: cons_result_def bind_io_def)

lemma enrich_loop_Cons_cases:
  assumes run: "enrich_loop e mf (a # rest) c w = (Inr out, w')"
  obtains (keep) out' w1 where "out = a # out'"
      and "enrich_loop e mf rest c w1 = (Inr out', w')"
  | (fill) d meta out' w1 where "a = JDict d" and "c < mf"
      and "out = JDict (enriched_article d meta) # out'"
      and "enrich_loop e mf rest (c + 1) w1 = (Inr out', w')"
proof (cases a)
  case (JDict d)
  show ?thesis
  proof (cases "needs_enrichment d \<and> c < mf")
    case False
    with run JDict have "cons_result a (enrich_loop e mf rest c w) = (Inr out, w')" by auto
    then show ?thesis using keep by (auto simp: cons_result_Inr_iff)
  next
    case True
    obtain res w1 where f: "fetch_url e w (dict_get d ''source_url'') True 3 = (res, w1)"
      by (cases "fetch_url e w (dict_get d ''source_url'') True 3")
    show ?thesis
    proof (cases res)
      case (Inl err)
      with run JDict True f show ?thesis by simp
    next
      case (Inr got)
      show ?thesis
      proof (cases "raw_text got")
        case None
        with run JDict True f Inr
        have "cons_result a (enrich_loop e mf rest c w1) = (Inr out, w')" by simp
        then show ?thesis using keep by (auto simp: cons_result_Inr_iff)
      next
        case (Some body)
        show ?thesis
        proof (cases "body = []")
          case True
          with run JDict \<open>needs_enrichment d \<and> c < mf\<close> f Inr Some
          have "cons_result a (enrich_loop e mf rest c w1) = (Inr out, w')" by simp
          then show ?thesis using keep by (auto simp: cons_result_Inr_iff)
        next
          case False
          with run JDict \<open>needs_enrichment d \<and> c < mf\<close> f Inr Some
          have "cons_result
                  (JDict (enriched_article d
                     (extract_basic_metadata e w1 body (dict_get d ''source_url''))))
                  (enrich_loop e mf rest (c + 1) w1) = (Inr out, w')" by simp
          then show ?thesis
            using fill [OF JDict] \<open>needs_enrichment d \<and> c < mf\<close>
            by (auto simp: cons_result_Inr_iff)
        qed
      qed
    qed
  qed
qed (use run in simp_all)

lemma changes_Nil: "changes [] ys = 0"
  by (simp add: changes_def)

lemma changes_Cons:
  "changes (x # xs) (y # ys) = (if x \<noteq> y then 1 else 0) + changes xs ys"
  by (simp add: changes_def)

lemma enrich_loop_budget:
  "enrich_loop e mf arts c w = (Inr out, w') \<Longrightarrow>
     length out = length arts \<and> list_all2 fills_only_missing arts out
     \<and> int (changes arts out) \<le> max 0 (mf - c)
     \<and> (\<forall>i. mf \<le> c + int (changes (take i arts) (take i out)) \<longrightarrow>
            drop i out = drop i arts)"
proof (induction arts arbitrary: c w out)
  case Nil
  then show ?case by (simp add: changes_Nil)
next
  case (Cons a rest)
  from Cons.prems show ?case
  proof (cases rule: enrich_loop_Cons_cases)
    case (keep out' w1)
    note ih = Cons.IH [OF keep(2)]
    have len: "length out = length (a # rest)" using keep(1) ih by simp
    have rel: "list_all2 fills_only_missing (a # rest) out"
      using keep(1) ih fills_only_missing_refl by simp
    have bound: "int (changes (a # rest) out) \<le> max 0 (mf - c)"
      using keep(1) ih by (simp add: changes_Cons)
    have beyond: "mf \<le> c + int (changes (take i (a # rest)) (take i out)) \<longrightarrow>
            drop i out = drop i (a # rest)" for i
    proof (cases i)
      case 0
      from ih have "mf \<le> c + int (changes (take 0 rest) (take 0 out')) \<longrightarrow>
            drop 0 out' = drop 0 rest" by blast
      with 0 keep(1) show ?thesis by (simp add: changes_Nil)
    next
      case (Suc j)
      from ih have "mf \<le> c + int (changes (take j rest) (take j out')) \<longrightarrow>
            drop j out' = drop j rest" by blast
      with Suc keep(1) show ?thesis by (simp add: changes_Cons)
    qed
    from len rel bound beyond show ?thesis by blast
  next
    case (fill d meta out' w1)
    note ih = Cons.IH [OF fill(4)]
    have len: "length out = length (a # rest)" using fill(3) ih by simp
    have rel: "list_all2 fills_only_missing (a # rest) out"
      using fill(1,3) ih fills_only_missing_enriched by simp
    have bound: "int (changes (a # rest) out) \<le> max 0 (mf - c)"
      using fill(1,2,3) ih by (simp add: changes_Cons)
    have beyond: "mf \<le> c + int (changes (take i (a # rest)) (take i out)) \<longrightarrow>
            drop i out = drop i (a # rest)" for i
    proof (cases i)
      case 0
      with fill(2) show ?thesis by (simp add: changes_Nil)
    next
      case (Suc j)
      from ih have "mf \<le> c + 1 + int (changes (take j rest) (take j out')) \<longrightarrow>
            drop j out' = drop j rest" by blast
      with Suc fill(1,3) show ?thesis by (simp add: changes_Cons split: if_splits)
    qed
    from len rel bound beyond show ?thesis by blast
  qed
qed

subsection \<open>The enrichment budget on five articles\<close>

lemma five_articles_enriched:
  "fst (enrich_with_html_fallback env_html web_world five_articles 3)
     = Inr [titled_article ''u1'', bare_article ''u2'', titled_article ''u3'',
            titled_article ''u4'', bare_article ''u5'']"
  by (simp add: enrich_with_html_fallback_def five_articles_def bare_article_def
        titled_article_def needs_enrichment_def dict_get_def fetch_url_def Let_def log_call_def
        archive_file_def env_html_def env0_def web_world_def world0_def requests_get_def
        numeral_3_eq_3 enriched_article_def dict_set_def py_or_def opt_json_def
        extract_basic_metadata_def nonempty_def strip_def is_space_def)

text \<open>
  C6. Whatever the articles and the budget (five articles and a budget of 3 in
  particular), when \<^verbatim>\<open>enrich_with_html_fallback\<close> returns: the list has its length;
  at most \<open>max_fallback\<close> articles differ from what they were, over the whole pass;
  an article that differs has its other fields as before, and a headline or
  summary that was truthy as before (what the provider supplied is never
  overwritten, only a missing headline or summary is filled); and from the place
  where \<open>max_fallback\<close> articles have been changed, the rest of the list is the
  input unchanged.
\<close>

theorem enrichment_budget:
  "enrich_with_html_fallback e w articles max_fallback = (Inr out, w') \<longrightarrow>
     length out = length articles
     \<and> list_all2 fills_only_missing articles out
     \<and> int (changes articles out) \<le> max 0 max_fallback
     \<and> (\<forall>i. max_fallback \<le> int (changes (take i articles) (take i out)) \<longrightarrow>
            drop i out = drop i articles)"
  using enrich_loop_budget [of e max_fallback articles 0 w out w']
  by (simp add: enrich_with_html_fallback_def)

theorem enrichment_budget_witness:
  "fst (enrich_with_html_fallback env_html web_world five_articles 3)
     = Inr [titled_article ''u1'', bare_article ''u2'', titled_article ''u3'',
            titled_article ''u4'', bare_article ''u5'']
   \<and> changes five_articles
        [titled_article ''u1'', bare_article ''u2'', titled_article ''u3'',
         titled_article ''u4'', bare_article ''u5''] \<le> 3
   \<and> list_all2 fills_only_missing five_articles
        [titled_article ''u1'', bare_article ''u2'', titled_article ''u3'',
         titled_article ''u4'', bare_article ''u5'']
   \<and> drop 4 [titled_article ''u1'', bare_article ''u2'', titled_article ''u3'',
              titled_article ''u4'', bare_article ''u5''] = drop 4 five_articles"
proof -
  let ?out = "[titled_article ''u1'', bare_article ''u2'', titled_article ''u3'',
               titled_article ''u4'', bare_article ''u5'']"
  have run: "enrich_with_html_fallback env_html web_world five_articles 3
               = (Inr ?out, snd (enrich_with_html_fallback env_html web_world five_articles 3))"
    using five_articles_enriched
    by (metis prod.collapse)
  have three: "(3::int) \<le> int (changes (take 4 five_articles) (take 4 ?out))"
    by (simp add: changes_def five_articles_def bare_article_def titled_article_def)
  from run three
    enrichment_budget [of env_html web_world five_articles 3 ?out
      "snd (enrich_with_html_fallback env_html web_world five_articles 3)"]
  have r: "list_all2 fills_only_missing five_articles ?out
        \<and> int (changes five_articles ?out) \<le> max 0 3
        \<and> drop 4 ?out = drop 4 five_articles"
    by blast
  then have b: "changes five_articles ?out \<le> 3" by linarith
  from five_articles_enriched r b show ?thesis by blast
qed

subsection \<open>One record for each trial identifier\<close>

lemma hash_key_key_of: "hash_key v = Inr k \<Longrightarrow> k = key_of v"
  by (cases v) (auto simp: hash_key_def key_of_def)

lemma make_trial_fields:
  "make_trial e w variant protocol status_module nct_id = Inr t \<Longrightarrow>
   nct t = nct_id \<and> matched_variant t = variant"
  unfolding make_trial_def bind_result_Inr_iff by auto

lemma study_step_cases:
  assumes run: "study_step e w variant s (seen, cands) = Inr st'"
  obtains (skip) "study_key s = None" and "st' = (seen, cands)"
  | (dup) k where "study_key s = Some k" and "k \<in> set seen" and "st' = (seen, cands)"
  | (new) k t where "study_key s = Some k" and "k \<notin> set seen"
      and "st' = (k # seen, cands @ [t])" and "trial_of_study e w variant s = Inr t"
      and "key_of (nct t) = k" and "matched_variant t = variant"
proof (cases s)
  case (JDict sd)
  define protocol where "protocol = dict_get_default sd ''protocolSection'' (JDict [])"
  from run JDict obtain ident status_module nct_id
    where i: "py_get_default protocol ''identificationModule'' (JDict []) = Inr ident"
      and sm: "py_get_default protocol ''statusModule'' (JDict []) = Inr status_module"
      and n: "py_get ident ''nctId'' = Inr nct_id"
      and rest: "(if \<not> truthy nct_id then Inr (seen, cands)
                  else bind_result (hash_key nct_id) (\<lambda>k.
                       if k \<in> set seen then Inr (seen, cands)
                       else bind_result
                              (make_trial e w variant protocol status_module nct_id)
                              (\<lambda>t. Inr (k # seen, cands @ [t])))) = Inr st'"
    unfolding study_step_def protocol_def
    by (auto simp: Let_def bind_result_Inr_iff cong del: if_weak_cong)
  have ident_s: "study_ident s = Inr nct_id"
    using JDict i n by (simp add: study_ident_def protocol_def bind_result_def)
  show ?thesis
  proof (cases "truthy nct_id")
    case False
    with rest ident_s show ?thesis using skip by (simp add: study_key_def)
  next
    case True
    with rest obtain k where h: "hash_key nct_id = Inr k"
      and rest2: "(if k \<in> set seen then Inr (seen, cands)
                   else bind_result (make_trial e w variant protocol status_module nct_id)
                          (\<lambda>t. Inr (k # seen, cands @ [t]))) = Inr st'"
      by (auto simp: bind_result_Inr_iff)
    have key: "study_key s = Some k" using ident_s True h by (simp add: study_key_def)
    show ?thesis
    proof (cases "k \<in> set seen")
      case True
      with rest2 key show ?thesis using dup by simp
    next
      case False
      with rest2 obtain t
        where mk: "make_trial e w variant protocol status_module nct_id = Inr t"
          and st: "st' = (k # seen, cands @ [t])"
        by (auto simp: bind_result_Inr_iff)
      have tr: "trial_of_study e w variant s = Inr t"
        using JDict sm ident_s mk
        by (simp add: trial_of_study_def protocol_def Let_def bind_result_def)
      from make_trial_fields [OF mk] hash_key_key_of [OF h]
      have "key_of (nct t) = k" and "matched_variant t = variant" by simp_all
      with key False st tr show ?thesis using new by blast
    qed
  qed
next
  case JNull
  with run show ?thesis using skip
    by (simp add: study_step_def study_key_def study_ident_def)
next
  case (JBool b)
  with run show ?thesis using skip
    by (simp add: study_step_def study_key_def study_ident_def)
next
  case (JNum n)
  with run show ?thesis using skip
    by (simp add: study_step_def study_key_def study_ident_def)
next
  case (JStr x)
  with run show ?thesis using skip
    by (simp add: study_step_def study_key_def study_ident_def)
next
  case (JList xs)
  with run show ?thesis using skip
    by (simp add: study_step_def study_key_def study_ident_def)
qed

lemma map_of_append_seen:
  "k \<in> fst ` set occ \<Longrightarrow> map_of (occ @ later) k = map_of occ k"
  by (auto simp: map_add_def map_of_eq_None_iff split: option.splits)

lemma map_of_append_new:
  assumes "k \<notin> fst ` set occ"
  shows "map_of (occ @ [(k, x)]) k = Some x"
proof -
  from assms have "map_of occ k = None" by (simp add: map_of_eq_None_iff)
  then show ?thesis by (simp add: map_add_def)
qed

lemma dedup_inv_step:
  assumes inv: "dedup_inv e w occ (seen, cands)"
    and run: "study_step e w variant s (seen, cands) = Inr st'"
  shows "dedup_inv e w (occ @ study_occurrence variant s) st'"
  using run
proof (cases rule: study_step_cases)
  case skip
  with inv show ?thesis by (simp add: study_occurrence_def)
next
  case (dup k)
  from inv dup(2) have kin: "k \<in> fst ` set occ" by (simp add: dedup_inv_def)
  have keep: "map_of (occ @ [(k, variant, s)]) k' = map_of occ k'" if "k' \<in> fst ` set occ" for k'
    using that by (rule map_of_append_seen)
  have "dedup_inv e w (occ @ [(k, variant, s)]) (seen, cands)"
    unfolding dedup_inv_def
  proof (intro conjI ballI)
    show "set (fst (seen, cands)) = fst ` set (occ @ [(k, variant, s)])"
      using inv kin by (auto simp: dedup_inv_def)
    show "set (map (\<lambda>t. key_of (nct t)) (snd (seen, cands))) = fst ` set (occ @ [(k, variant, s)])"
      using inv kin by (auto simp: dedup_inv_def)
    show "distinct (map (\<lambda>t. key_of (nct t)) (snd (seen, cands)))"
      using inv by (simp add: dedup_inv_def)
  next
    fix t assume t: "t \<in> set (snd (seen, cands))"
    with inv have "key_of (nct t) \<in> fst ` set occ" by (auto simp: dedup_inv_def)
    from keep [OF this] inv t
    show "\<exists>v sa. map_of (occ @ [(k, variant, s)]) (key_of (nct t)) = Some (v, sa)
            \<and> matched_variant t = v \<and> trial_of_study e w v sa = Inr t"
      by (simp add: dedup_inv_def)
  qed
  with dup show ?thesis by (simp add: study_occurrence_def)
next
  case (new k t)
  from inv new(2) have knew: "k \<notin> fst ` set occ" by (simp add: dedup_inv_def)
  have keep: "map_of (occ @ [(k, variant, s)]) k' = map_of occ k'" if "k' \<in> fst ` set occ" for k'
    using that by (rule map_of_append_seen)
  have "dedup_inv e w (occ @ [(k, variant, s)]) (k # seen, cands @ [t])"
    unfolding dedup_inv_def
  proof (intro conjI ballI)
    show "set (fst (k # seen, cands @ [t])) = fst ` set (occ @ [(k, variant, s)])"
      using inv by (auto simp: dedup_inv_def)
    show "set (map (\<lambda>t. key_of (nct t)) (snd (k # seen, cands @ [t])))
            = fst ` set (occ @ [(k, variant, s)])"
      using inv new(5) by (auto simp: dedup_inv_def)
    show "distinct (map (\<lambda>t. key_of (nct t)) (snd (k # seen, cands @ [t])))"
      using inv new(5) knew by (auto simp: dedup_inv_def)
  next
    fix t' assume t': "t' \<in> set (snd (k # seen, cands @ [t]))"
    show "\<exists>v sa. map_of (occ @ [(k, variant, s)]) (key_of (nct t')) = Some (v, sa)
            \<and> matched_variant t' = v \<and> trial_of_study e w v sa = Inr t'"
    proof (cases "t' \<in> set cands")
      case True
      with inv have "key_of (nct t') \<in> fst ` set occ" by (auto simp: dedup_inv_def)
      from keep [OF this] inv True show ?thesis by (simp add: dedup_inv_def)
    next
      case False
      with t' have "t' = t" by simp
      with new(4,5,6) map_of_append_new [OF knew, of "(variant, s)"] show ?thesis by simp
    qed
  qed
  with new show ?thesis by (simp add: study_occurrence_def)
qed

lemma dedup_inv_studies:
  "dedup_inv e w occ st \<Longrightarrow> studies_loop e w variant ss st = Inr st' \<Longrightarrow>
   dedup_inv e w (occ @ concat (map (study_occurrence variant) ss)) st'"
proof (induction ss arbitrary: occ st)
  case Nil
  then show ?case by simp
next
  case (Cons s ss)
  from Cons.prems(2) obtain st1 where step: "study_step e w variant s st = Inr st1"
    and rest: "studies_loop e w variant ss st1 = Inr st'"
    by (auto split: sum.splits)
  from Cons.prems(1) step have "dedup_inv e w (occ @ study_occurrence variant s) st1"
    using dedup_inv_step [of e w occ "fst st" "snd st" variant s st1] by simp
  from Cons.IH [OF this rest] show ?case by simp
qed

lemma dedup_inv_items:
  "dedup_inv e w occ st \<Longrightarrow> items_loop e w company items st = Inr st' \<Longrightarrow>
   dedup_inv e w (occ @ occurrences company items) st'"
proof (induction items arbitrary: occ st)
  case Nil
  then show ?case by (simp add: occurrences_def)
next
  case (Cons item items)
  from Cons.prems(2) obtain st1 studies ss
    where g: "py_get_default (item_json item) ''studies'' (JList []) = Inr studies"
      and it: "py_iter studies = Inr ss"
      and loop: "studies_loop e w (item_variant company item) ss st = Inr st1"
      and rest: "items_loop e w company items st1 = Inr st'"
    by (auto simp: bind_result_Inr_iff split: sum.splits)
  have ss: "item_studies item = ss" using g it by (simp add: item_studies_def bind_result_def)
  from dedup_inv_studies [OF Cons.prems(1) loop]
  have "dedup_inv e w
          (occ @ concat (map (study_occurrence (item_variant company item)) ss)) st1" .
  from Cons.IH [OF this rest] ss show ?case by (simp add: occurrences_def)
qed

subsection \<open>Deduplication across name variants\<close>

lemma two_variants_normalized:
  "summary_of (normalize_trials env0 world0 two_variants ''Acme Inc'')
     = Some [(JStr ''NCT1'', JStr ''Acme Inc'', JStr ''RECRUITING''),
             (JStr ''NCT2'', JStr ''Acme'', JStr ''RECRUITING'')]"
  by code_simp

lemma dedup_inv_initial: "dedup_inv e w [] ([], [])"
  by (simp add: dedup_inv_def)



end
